theory Spec2Isabelle
  imports Complex_Main "HOL-Library.Word" "HOL-Library.Sublist"
begin

section \<open>JavaScript values as the handlers see them\<close>

text \<open>
  A JavaScript string is a sequence of UTF-16 code units; \<open>.length\<close> counts code units.
  String literals of the source are ASCII and are written through \<open>lit\<close>.
\<close>

type_synonym jschar = "16 word"
type_synonym jsstring = "jschar list"

definition lit :: "string \<Rightarrow> jsstring" where
  "lit s = map of_char s"

text \<open>
  The field values a parsed JSON body can hold, restricted to the primitives: a missing
  property reads as \<open>JUndefined\<close>. Numbers are the finite ones (JSON has no NaN).
  Arrays and objects as field values are outside the model.
\<close>

datatype jsval = JUndefined | JNull | JBool bool | JNum rat | JStr jsstring

text \<open>\<open>!v\<close> is \<open>\<not> truthy v\<close>.\<close>

fun truthy :: "jsval \<Rightarrow> bool" where
  "truthy JUndefined = False"
| "truthy JNull = False"
| "truthy (JBool b) = b"
| "truthy (JNum n) = (n \<noteq> 0)"
| "truthy (JStr s) = (s \<noteq> [])"

text \<open>\<open>v ?? null\<close>.\<close>

fun or_null :: "jsval \<Rightarrow> jsval" where
  "or_null JUndefined = JNull"
| "or_null JNull = JNull"
| "or_null v = v"

text \<open>\<open>v ?? "incomplete"\<close>, the simple handlers' status default.\<close>

fun or_incomplete :: "jsval \<Rightarrow> jsval" where
  "or_incomplete JUndefined = JStr (lit ''incomplete'')"
| "or_incomplete JNull = JStr (lit ''incomplete'')"
| "or_incomplete v = v"

text \<open>
  The code units that \<open>String.prototype.trim\<close>, the regular expression class \<open>\s\<close> and
  the leading-blank skipping of \<open>parseInt\<close> all treat as white space: ECMAScript's
  WhiteSpace and LineTerminator productions.
\<close>

definition is_ws :: "jschar \<Rightarrow> bool" where
  "is_ws c \<longleftrightarrow>
     c = 0x0009 \<or> c = 0x000A \<or> c = 0x000B \<or> c = 0x000C \<or> c = 0x000D \<or> c = 0x0020 \<or>
     c = 0x00A0 \<or> c = 0x1680 \<or> (0x2000 \<le> c \<and> c \<le> 0x200A) \<or> c = 0x2028 \<or>
     c = 0x2029 \<or> c = 0x202F \<or> c = 0x205F \<or> c = 0x3000 \<or> c = 0xFEFF"

definition trim :: "jsstring \<Rightarrow> jsstring" where
  "trim s = rev (dropWhile is_ws (rev (dropWhile is_ws s)))"

text \<open>\<open>s.replace(/\s+/g, " ")\<close>: every maximal run of white space becomes one space.\<close>

function collapse_ws :: "jsstring \<Rightarrow> jsstring" where
  "collapse_ws [] = []"
| "collapse_ws (c # cs) =
     (if is_ws c then 0x0020 # collapse_ws (dropWhile is_ws cs) else c # collapse_ws cs)"
  by pat_completeness auto
termination
  by (relation "measure length") (auto simp: length_dropWhile_le less_Suc_eq_le)

text \<open>\<open>s.includes(t)\<close>: t occurs in s as a contiguous substring.\<close>

fun str_includes :: "jsstring \<Rightarrow> jsstring \<Rightarrow> bool" where
  "str_includes [] t = (t = [])"
| "str_includes (c # cs) t = (prefix t (c # cs) \<or> str_includes cs t)"

section \<open>The validators (src/index.js, hardened revision)\<close>

definition DEFAULT_STATUS :: jsstring where
  "DEFAULT_STATUS = lit ''incomplete''"

definition validStatuses :: "jsstring list" where
  "validStatuses = [lit ''incomplete'', lit ''in-progress'', lit ''complete'', lit ''archived'']"

text \<open>\<open>validStatuses.includes(status)\<close> compares strictly: only a string can be found.\<close>

fun isValidStatus :: "jsval \<Rightarrow> bool" where
  "isValidStatus (JStr s) = (s \<in> set validStatuses)"
| "isValidStatus _ = False"

fun sanitizeTitle :: "jsval \<Rightarrow> jsstring" where
  "sanitizeTitle (JStr title) =
     (if title = [] then []
      else let trimmed = trim title in
        if length trimmed = 0 then [] else collapse_ws trimmed)"
| "sanitizeTitle _ = []"

text \<open>
  The numbers that \<open>parseInt\<close> can return: NaN, an integer that a double holds exactly
  (\<open>-0\<close> is \<open>Finite 0\<close>), or an infinity.
\<close>

datatype number = NaN | Finite int | Infinity | NegInfinity

fun isNaN :: "number \<Rightarrow> bool" where
  "isNaN NaN = True"
| "isNaN _ = False"

text \<open>\<open>x <= 0\<close>.\<close>

fun le_zero :: "number \<Rightarrow> bool" where
  "le_zero NaN = False"
| "le_zero (Finite k) = (k \<le> 0)"
| "le_zero Infinity = False"
| "le_zero NegInfinity = True"

text \<open>
  The double nearest to an integer that is not negative, ties to the even significand;
  \<open>None\<close> when the rounding reaches \<open>2 ^ 1024\<close>, which is Infinity. Below \<open>2 ^ 53\<close>
  every integer is a double.
\<close>

function bit_length :: "int \<Rightarrow> nat" where
  "bit_length n = (if n \<le> 0 then 0 else Suc (bit_length (n div 2)))"
  by pat_completeness auto
termination
  by (relation "measure nat") auto

declare bit_length.simps [simp del]

definition nearest_double :: "int \<Rightarrow> int option" where
  "nearest_double m =
     (if m < 2 ^ 53 then Some m
      else let e = bit_length m - 53;
               q = m div 2 ^ e;
               r = m mod 2 ^ e;
               half = 2 ^ (e - 1);
               q' = (if half < r \<or> (r = half \<and> odd q) then q + 1 else q)
        in if 2 ^ 1024 \<le> q' * 2 ^ e then None else Some (q' * 2 ^ e))"

text \<open>
  \<open>parseInt(s)\<close> with no radix, on a string: skip leading white space, read a sign, strip a
  \<open>0x\<close>/\<open>0X\<close> prefix (radix 16, else radix 10), take the longest prefix of digits of the
  radix; no digit gives NaN. The integer read is rounded to the nearest double (beyond 20
  significant decimal digits ECMAScript lets an implementation round less exactly; the
  sign, zero and every value below \<open>2 ^ 53\<close> are not affected).
\<close>

definition digit_val :: "jschar \<Rightarrow> nat option" where
  "digit_val c =
     (if 0x30 \<le> c \<and> c \<le> 0x39 then Some (unat c - 0x30)
      else if 0x61 \<le> c \<and> c \<le> 0x7A then Some (unat c - 0x61 + 10)
      else if 0x41 \<le> c \<and> c \<le> 0x5A then Some (unat c - 0x41 + 10)
      else None)"

definition radix_digit :: "nat \<Rightarrow> jschar \<Rightarrow> bool" where
  "radix_digit R c = (case digit_val c of Some d \<Rightarrow> d < R | None \<Rightarrow> False)"

definition digits_value :: "nat \<Rightarrow> jsstring \<Rightarrow> int" where
  "digits_value R Z = foldl (\<lambda>a c. a * int R + int (the (digit_val c))) 0 Z"

definition strip_sign :: "jsstring \<Rightarrow> int \<times> jsstring" where
  "strip_sign S =
     (case S of
        [] \<Rightarrow> (1, [])
      | c # r \<Rightarrow> if c = 0x2D then (- 1, r) else if c = 0x2B then (1, r) else (1, S))"

definition strip_prefix :: "jsstring \<Rightarrow> nat \<times> jsstring" where
  "strip_prefix S =
     (if 2 \<le> length S \<and> (take 2 S = lit ''0x'' \<or> take 2 S = lit ''0X'')
      then (16, drop 2 S) else (10, S))"

definition parseInt :: "jsstring \<Rightarrow> number" where
  "parseInt s =
     (let (sign, S) = strip_sign (dropWhile is_ws s);
          (R, S') = strip_prefix S;
          Z = takeWhile (radix_digit R) S'
      in if Z = [] then NaN
         else (case nearest_double (digits_value R Z) of
                 None \<Rightarrow> if sign < 0 then NegInfinity else Infinity
               | Some v \<Rightarrow> Finite (sign * v)))"

text \<open>
  The result of \<open>validateTodoId\<close>: \<open>parsedId\<close> is the number or \<open>null\<close> (\<open>None\<close>),
  \<open>error\<close> the message or \<open>null\<close>.
\<close>

record validation =
  isValid :: bool
  parsedId :: "number option"
  error :: jsval

definition validateTodoId :: "jsstring \<Rightarrow> validation" where
  "validateTodoId ident =
     (let parsed = parseInt ident in
      if isNaN parsed \<or> le_zero parsed
      then \<lparr>isValid = False, parsedId = None, error = JStr (lit ''Invalid ID'')\<rparr>
      else \<lparr>isValid = True, parsedId = Some parsed, error = JNull\<rparr>)"

text \<open>
  \<open>description.length > maxLength\<close>: a truthy boolean or number has no \<open>length\<close>, and
  \<open>undefined > 1000\<close> is false.
\<close>

fun isDescriptionTooLong :: "jsval \<Rightarrow> nat \<Rightarrow> bool" where
  "isDescriptionTooLong (JStr d) maxLength = (d \<noteq> [] \<and> length d > maxLength)"
| "isDescriptionTooLong _ maxLength = False"

text \<open>
  What a call of the persistence layer throws or rejects with: \<open>undefined\<close> or
  \<open>null\<close>, or any other value, of which the handlers read only the property
  \<open>message\<close> (the message string of an \<open>Error\<close>; \<open>JUndefined\<close> when the value has
  none).
\<close>

datatype db_error = Nullish | DbError (message: jsval)

text \<open>
  What a handler can let escape: the rejection of a call of the layer that no
  \<open>try\<close> encloses, or a TypeError raised by the handler's own code.
\<close>

datatype uncaught = Rejected db_error | TypeError

text \<open>
  A falsy description is valid. A string is checked against the four patterns and the
  5000 bound. A truthy boolean or number has no \<open>includes\<close> method: the call throws.
\<close>

fun isValidDescription :: "jsval \<Rightarrow> uncaught + bool" where
  "isValidDescription (JStr d) =
     (if d = [] then Inr True
      else if str_includes d (lit ''<script>'') then Inr False
      else if str_includes d (lit ''javascript:'') then Inr False
      else if str_includes d (lit ''onerror='') then Inr False
      else if str_includes d (lit ''onload='') then Inr False
      else if length d > 5000 then Inr False
      else Inr True)"
| "isValidDescription (JBool b) = (if b then Inl TypeError else Inr True)"
| "isValidDescription (JNum n) = (if n \<noteq> 0 then Inl TypeError else Inr True)"
| "isValidDescription _ = Inr True"

section \<open>Requests, responses and the persistence layer\<close>

text \<open>A row of the \<open>todos\<close> table, as \<open>SELECT *\<close> returns it.\<close>

record row =
  todo_id :: int
  title :: jsval
  description :: jsval
  status :: jsval

text \<open>
  The result of \<open>request.json()\<close> is \<open>None\<close> when the body is not JSON (the call throws
  and the handler answers "Invalid JSON"). A parsed body is \<open>null\<close>, or it is read through
  its three properties; a body that is a number, a string, a boolean or an array has none
  of them and reads as \<open>BodyObject JUndefined JUndefined JUndefined\<close>.
\<close>

datatype req_body = BodyNull | BodyObject jsval jsval jsval

datatype body =
    ErrorBody jsval
  | SuccessBody
  | TodoBody "row option"
  | TodosBody "row list"

record response =
  http_status :: nat
  body :: body

definition json :: "body \<Rightarrow> nat \<Rightarrow> response" where
  "json b st = \<lparr>http_status = st, body = b\<rparr>"

text \<open>\<open>results[0]\<close>, which is \<open>undefined\<close> on an empty array.\<close>

fun first_row :: "row list \<Rightarrow> row option" where
  "first_row [] = None"
| "first_row (r # rs) = Some r"

text \<open>
  The result of a \<open>run()\<close> is an object. Its \<open>meta\<close> may be missing (the tests stub it
  so); a \<open>meta\<close> that is there is read through its property \<open>changes\<close>, the number of
  changed rows, which reads as \<open>JUndefined\<close> when \<open>meta\<close> has none.
\<close>

datatype d1_meta = Meta (changes: jsval)

datatype run_result = RunResult (meta: "d1_meta option")

text \<open>
  \<open>dbLayer\<close> is an object of seven asynchronous functions that the tests replace one by
  one. Each takes the database \<open>env.DB\<close>, resolves to a result or rejects with an error,
  and may change the database.
\<close>

record 'db dbLayer =
  getAllTodos :: "'db \<Rightarrow> (db_error + row list) \<times> 'db"
  getTodoById :: "'db \<Rightarrow> number \<Rightarrow> (db_error + row list) \<times> 'db"
  insertTodo :: "'db \<Rightarrow> jsval \<Rightarrow> jsval \<Rightarrow> jsval \<Rightarrow> (db_error + run_result) \<times> 'db"
  getLatestTodo :: "'db \<Rightarrow> (db_error + row list) \<times> 'db"
  todoExists :: "'db \<Rightarrow> number \<Rightarrow> (db_error + unit list option) \<times> 'db"
  updateTodo :: "'db \<Rightarrow> number \<Rightarrow> jsval \<Rightarrow> jsval \<Rightarrow> jsval \<Rightarrow> (db_error + run_result) \<times> 'db"
  deleteTodo :: "'db \<Rightarrow> number \<Rightarrow> (db_error + run_result) \<times> 'db"

text \<open>
  \<open>err.message || "DB failure"\<close>, evaluated in the \<open>catch\<close> block: reading a property
  of \<open>undefined\<close> or \<open>null\<close> throws a TypeError there, which nothing catches.
\<close>

fun error_text :: "db_error \<Rightarrow> uncaught + jsval" where
  "error_text Nullish = Inl TypeError"
| "error_text (DbError m) = Inr (if truthy m then m else JStr (lit ''DB failure''))"

text \<open>The \<open>catch\<close> block: the answer 500 with that text, or the TypeError.\<close>

definition db_failure :: "db_error \<Rightarrow> uncaught + response" where
  "db_failure err =
     (case error_text err of
        Inl e \<Rightarrow> Inl e
      | Inr text \<Rightarrow> Inr (json (ErrorBody text) 500))"

section \<open>The hardened route handlers\<close>

text \<open>
  Each handler takes the layer, what it reads of the request, and the database; it returns
  the response (or what escapes it) and the database afterwards. In the \<open>catch\<close> blocks
  the source also formats the error and writes it to the console; that has no part in the
  response.
\<close>

definition get_todos :: "'db dbLayer \<Rightarrow> 'db \<Rightarrow> (uncaught + response) \<times> 'db" where
  "get_todos L db =
     (case getAllTodos L db of
        (Inl err, db1) \<Rightarrow> (db_failure err, db1)
      | (Inr results, db1) \<Rightarrow> (Inr (json (TodosBody results) 200), db1))"

definition get_todo :: "'db dbLayer \<Rightarrow> jsstring \<Rightarrow> 'db \<Rightarrow> (uncaught + response) \<times> 'db" where
  "get_todo L params_id db =
     (let validation = validateTodoId params_id in
      if \<not> isValid validation
      then (Inr (json (ErrorBody (error validation)) 400), db)
      else let ident = the (parsedId validation) in
        (case getTodoById L db ident of
           (Inl err, db1) \<Rightarrow> (db_failure err, db1)
         | (Inr results, db1) \<Rightarrow>
             if length results = 0
             then (Inr (json (ErrorBody (JStr (lit ''Not found''))) 404), db1)
             else (Inr (json (TodoBody (first_row results)) 200), db1)))"

definition post_todos ::
  "'db dbLayer \<Rightarrow> req_body option \<Rightarrow> 'db \<Rightarrow> (uncaught + response) \<times> 'db" where
  "post_todos L request_json db =
     (case request_json of
        None \<Rightarrow> (Inr (json (ErrorBody (JStr (lit ''Invalid JSON''))) 400), db)
      | Some BodyNull \<Rightarrow> (Inl TypeError, db)
      | Some (BodyObject body_title body_description body_status) \<Rightarrow>
          if \<not> truthy body_title
          then (Inr (json (ErrorBody (JStr (lit ''Title required''))) 400), db)
          else let sanitizedTitle = sanitizeTitle body_title in
            if sanitizedTitle = []
            then (Inr (json (ErrorBody (JStr (lit ''Title cannot be empty''))) 400), db)
            else let description = or_null body_description in
              if isDescriptionTooLong description 1000
              then (Inr (json (ErrorBody (JStr (lit ''Description is too long (max 1000 characters)'')))
                      400), db)
              else
                (case isValidDescription description of
                   Inl e \<Rightarrow> (Inl e, db)
                 | Inr False \<Rightarrow>
                     (Inr (json (ErrorBody (JStr (lit ''Description contains invalid content''))) 400),
                      db)
                 | Inr True \<Rightarrow>
                     let status =
                       (if isValidStatus body_status then body_status
                        else JStr DEFAULT_STATUS)
                     in
                       (case insertTodo L db (JStr sanitizedTitle) description status of
                          (Inl err, db1) \<Rightarrow> (db_failure err, db1)
                        | (Inr inserted, db1) \<Rightarrow>
                            (case getLatestTodo L db1 of
                               (Inl err, db2) \<Rightarrow> (db_failure err, db2)
                             | (Inr results, db2) \<Rightarrow>
                                 (Inr (json (TodoBody (first_row results)) 201), db2)))))"

definition put_todo ::
  "'db dbLayer \<Rightarrow> jsstring \<Rightarrow> req_body option \<Rightarrow> 'db \<Rightarrow> (uncaught + response) \<times> 'db" where
  "put_todo L params_id request_json db =
     (let validation = validateTodoId params_id in
      if \<not> isValid validation
      then (Inr (json (ErrorBody (error validation)) 400), db)
      else let ident = the (parsedId validation) in
        (case request_json of
           None \<Rightarrow> (Inr (json (ErrorBody (JStr (lit ''Invalid JSON''))) 400), db)
         | Some BodyNull \<Rightarrow> (Inl TypeError, db)
         | Some (BodyObject body_title body_description body_status) \<Rightarrow>
             if \<not> truthy body_title
             then (Inr (json (ErrorBody (JStr (lit ''Title required for PUT''))) 400), db)
             else let sanitizedTitle = sanitizeTitle body_title in
               if sanitizedTitle = []
               then (Inr (json (ErrorBody (JStr (lit ''Title cannot be empty''))) 400), db)
               else
                 (case todoExists L db ident of
                    (Inl err, db1) \<Rightarrow> (db_failure err, db1)
                  | (Inr exists, db1) \<Rightarrow>
                      if exists = None \<or> length (the exists) = 0
                      then (Inr (json (ErrorBody (JStr (lit ''Not found''))) 404), db1)
                      else let description = or_null body_description in
                        if isDescriptionTooLong description 1000
                        then (Inr (json (ErrorBody
                                (JStr (lit ''Description is too long (max 1000 characters)''))) 400), db1)
                        else let status =
                               (if isValidStatus body_status then body_status
                                else JStr DEFAULT_STATUS)
                          in
                            (case updateTodo L db1 ident (JStr sanitizedTitle) description
                                    status of
                               (Inl err, db2) \<Rightarrow> (db_failure err, db2)
                             | (Inr changed, db2) \<Rightarrow>
                                 (case getTodoById L db2 ident of
                                    (Inl err, db3) \<Rightarrow> (db_failure err, db3)
                                  | (Inr updated, db3) \<Rightarrow>
                                      (Inr (json (TodoBody (first_row updated)) 200), db3))))))"

definition delete_todo ::
  "'db dbLayer \<Rightarrow> jsstring \<Rightarrow> 'db \<Rightarrow> (uncaught + response) \<times> 'db" where
  "delete_todo L params_id db =
     (let validation = validateTodoId params_id in
      if \<not> isValid validation
      then (Inr (json (ErrorBody (error validation)) 400), db)
      else let ident = the (parsedId validation) in
        (case deleteTodo L db ident of
           (Inl err, db1) \<Rightarrow> (db_failure err, db1)
         | (Inr result, db1) \<Rightarrow>
             if meta result = None \<or> changes (the (meta result)) = JNum 0
             then (Inr (json (ErrorBody (JStr (lit ''Not found''))) 404), db1)
             else (Inr (json SuccessBody 200), db1)))"

section \<open>The original, simple route handlers\<close>

text \<open>
  The first revision of src/index.js: the id is parsed in the handler, the title is
  stored as sent, and only the list handler encloses its collaborator call in \<open>try\<close>.
\<close>

definition simple_get_todos :: "'db dbLayer \<Rightarrow> 'db \<Rightarrow> (uncaught + response) \<times> 'db" where
  "simple_get_todos L db =
     (case getAllTodos L db of
        (Inl err, db1) \<Rightarrow> (db_failure err, db1)
      | (Inr results, db1) \<Rightarrow> (Inr (json (TodosBody results) 200), db1))"

definition simple_get_todo ::
  "'db dbLayer \<Rightarrow> jsstring \<Rightarrow> 'db \<Rightarrow> (uncaught + response) \<times> 'db" where
  "simple_get_todo L params_id db =
     (let ident = parseInt params_id in
      if isNaN ident
      then (Inr (json (ErrorBody (JStr (lit ''Invalid ID''))) 400), db)
      else
        (case getTodoById L db ident of
           (Inl err, db1) \<Rightarrow> (Inl (Rejected err), db1)
         | (Inr results, db1) \<Rightarrow>
             if length results = 0
             then (Inr (json (ErrorBody (JStr (lit ''Not found''))) 404), db1)
             else (Inr (json (TodoBody (first_row results)) 200), db1)))"

definition simple_post_todos ::
  "'db dbLayer \<Rightarrow> req_body option \<Rightarrow> 'db \<Rightarrow> (uncaught + response) \<times> 'db" where
  "simple_post_todos L request_json db =
     (case request_json of
        None \<Rightarrow> (Inr (json (ErrorBody (JStr (lit ''Invalid JSON''))) 400), db)
      | Some BodyNull \<Rightarrow> (Inl TypeError, db)
      | Some (BodyObject body_title body_description body_status) \<Rightarrow>
          if \<not> truthy body_title
          then (Inr (json (ErrorBody (JStr (lit ''Title required''))) 400), db)
          else let description = or_null body_description;
                   status = or_incomplete body_status
            in
              (case insertTodo L db body_title description status of
                 (Inl err, db1) \<Rightarrow> (Inl (Rejected err), db1)
               | (Inr inserted, db1) \<Rightarrow>
                   (case getLatestTodo L db1 of
                      (Inl err, db2) \<Rightarrow> (Inl (Rejected err), db2)
                    | (Inr results, db2) \<Rightarrow>
                        (Inr (json (TodoBody (first_row results)) 201), db2))))"

definition simple_put_todo ::
  "'db dbLayer \<Rightarrow> jsstring \<Rightarrow> req_body option \<Rightarrow> 'db \<Rightarrow> (uncaught + response) \<times> 'db" where
  "simple_put_todo L params_id request_json db =
     (let ident = parseInt params_id in
      if isNaN ident \<or> le_zero ident
      then (Inr (json (ErrorBody (JStr (lit ''Invalid id''))) 400), db)
      else
            (case request_json of
               None \<Rightarrow> (Inr (json (ErrorBody (JStr (lit ''Invalid JSON''))) 400), db)
             | Some BodyNull \<Rightarrow> (Inl TypeError, db)
             | Some (BodyObject body_title body_description body_status) \<Rightarrow>
                 if \<not> truthy body_title
                 then (Inr (json (ErrorBody (JStr (lit ''Title required for PUT''))) 400), db)
                 else
                   (case todoExists L db ident of
                      (Inl err, db1) \<Rightarrow> (Inl (Rejected err), db1)
                    | (Inr exists, db1) \<Rightarrow>
                        if exists = None \<or> length (the exists) = 0
                        then (Inr (json (ErrorBody (JStr (lit ''Not found''))) 404), db1)
                        else let description = or_null body_description;
                                 status = or_incomplete body_status
                          in
                            (case updateTodo L db1 ident body_title description status of
                               (Inl err, db2) \<Rightarrow> (Inl (Rejected err), db2)
                             | (Inr changed, db2) \<Rightarrow>
                                 (case getTodoById L db2 ident of
                                    (Inl err, db3) \<Rightarrow> (Inl (Rejected err), db3)
                                  | (Inr updated, db3) \<Rightarrow>
                                      (Inr (json (TodoBody (first_row updated)) 200), db3))))))"

definition simple_delete_todo ::
  "'db dbLayer \<Rightarrow> jsstring \<Rightarrow> 'db \<Rightarrow> (uncaught + response) \<times> 'db" where
  "simple_delete_todo L params_id db =
     (let ident = parseInt params_id in
      if isNaN ident
      then (Inr (json (ErrorBody (JStr (lit ''Invalid ID''))) 400), db)
      else
        (case deleteTodo L db ident of
           (Inl err, db1) \<Rightarrow> (Inl (Rejected err), db1)
         | (Inr result, db1) \<Rightarrow>
             if meta result = None \<or> changes (the (meta result)) = JNum 0
             then (Inr (json (ErrorBody (JStr (lit ''Not found''))) 404), db1)
             else (Inr (json SuccessBody 200), db1)))"

section \<open>The statements of src/db.js over a table\<close>

text \<open>
  Modelled from the spec: the SQL engine behind \<open>env.DB\<close> is not part of the repository.
  The table is the list of its rows with the counter that \<open>AUTOINCREMENT\<close> keeps (the
  schema of the setup guide has \<open>id INTEGER PRIMARY KEY AUTOINCREMENT\<close>); each function
  of src/db.js is the effect of its one SQL statement. Bound values are kept as they are,
  which is what a TEXT column does with a string and with NULL; a number or a boolean is
  kept as bound too, where the engine would store its text. A row carries its id as it
  is stored; JavaScript reads it as a number, the same integer when it is below
  \<open>2 ^ 53\<close>.
\<close>

record table =
  rows :: "row list"
  seq :: nat

text \<open>The id of an inserted row: one more than the largest id ever used.\<close>

definition next_id :: "table \<Rightarrow> int" where
  "next_id t = 1 + fold max (map todo_id (rows t)) (int (seq t))"

text \<open>\<open>WHERE id = ?\<close> with a number bound: an infinity equals no id.\<close>

fun id_is :: "number \<Rightarrow> row \<Rightarrow> bool" where
  "id_is (Finite k) r = (todo_id r = k)"
| "id_is i r = False"

text \<open>The \<open>meta\<close> of a statement that changed \<open>k\<close> rows.\<close>

definition changed :: "nat \<Rightarrow> run_result" where
  "changed k = RunResult (Some (Meta (JNum (of_nat k))))"

definition d1_getAllTodos :: "table \<Rightarrow> (db_error + row list) \<times> table" where
  "d1_getAllTodos t = (Inr (rows t), t)"

definition d1_getTodoById :: "table \<Rightarrow> number \<Rightarrow> (db_error + row list) \<times> table" where
  "d1_getTodoById t i = (Inr (filter (id_is i) (rows t)), t)"

definition d1_insertTodo ::
  "table \<Rightarrow> jsval \<Rightarrow> jsval \<Rightarrow> jsval \<Rightarrow> (db_error + run_result) \<times> table" where
  "d1_insertTodo t ti de st =
     (let i = next_id t in
      (Inr (changed 1),
       \<lparr>rows = rows t @ [\<lparr>todo_id = i, title = ti, description = de, status = st\<rparr>],
        seq = nat i\<rparr>))"

text \<open>\<open>ORDER BY id DESC LIMIT 1\<close>: the row of greatest id, if there is a row.\<close>

definition d1_getLatestTodo :: "table \<Rightarrow> (db_error + row list) \<times> table" where
  "d1_getLatestTodo t =
     (case rows t of
        [] \<Rightarrow> (Inr [], t)
      | r # rs \<Rightarrow>
          (Inr [fold (\<lambda>x best. if todo_id best < todo_id x then x else best) rs r], t))"

definition d1_todoExists :: "table \<Rightarrow> number \<Rightarrow> (db_error + unit list option) \<times> table" where
  "d1_todoExists t i = (Inr (Some (map (\<lambda>r. ()) (filter (id_is i) (rows t)))), t)"

definition d1_updateTodo ::
  "table \<Rightarrow> number \<Rightarrow> jsval \<Rightarrow> jsval \<Rightarrow> jsval \<Rightarrow> (db_error + run_result) \<times> table" where
  "d1_updateTodo t i ti de st =
     (Inr (changed (length (filter (id_is i) (rows t)))),
      t\<lparr>rows := map (\<lambda>r. if id_is i r
                           then r\<lparr>title := ti, description := de, status := st\<rparr> else r)
                    (rows t)\<rparr>)"

definition d1_deleteTodo :: "table \<Rightarrow> number \<Rightarrow> (db_error + run_result) \<times> table" where
  "d1_deleteTodo t i =
     (Inr (changed (length (filter (id_is i) (rows t)))),
      t\<lparr>rows := filter (\<lambda>r. \<not> id_is i r) (rows t)\<rparr>)"

definition d1 :: "table dbLayer" where
  "d1 = \<lparr>getAllTodos = d1_getAllTodos, getTodoById = d1_getTodoById,
         insertTodo = d1_insertTodo, getLatestTodo = d1_getLatestTodo,
         todoExists = d1_todoExists, updateTodo = d1_updateTodo,
         deleteTodo = d1_deleteTodo\<rparr>"

text \<open>
  A collaborator that can fail, as the stubs of the tests make it: the database comes with
  a schedule, one entry for each call to come; \<open>Some e\<close> makes that call reject with
  \<open>e\<close> and leaves the database alone, \<open>None\<close> (or an exhausted schedule) lets it run.
\<close>

fun attempt ::
  "('db \<Rightarrow> (db_error + 'a) \<times> 'db) \<Rightarrow> 'db \<times> db_error option list \<Rightarrow>
   (db_error + 'a) \<times> ('db \<times> db_error option list)" where
  "attempt f (db, Some e # schedule) = (Inl e, (db, schedule))"
| "attempt f (db, None # schedule) = (case f db of (r, db1) \<Rightarrow> (r, (db1, schedule)))"
| "attempt f (db, []) = (case f db of (r, db1) \<Rightarrow> (r, (db1, [])))"

definition faulty :: "'db dbLayer \<Rightarrow> ('db \<times> db_error option list) dbLayer" where
  "faulty L =
     \<lparr>getAllTodos = attempt (getAllTodos L),
      getTodoById = (\<lambda>s i. attempt (\<lambda>db. getTodoById L db i) s),
      insertTodo = (\<lambda>s ti de st. attempt (\<lambda>db. insertTodo L db ti de st) s),
      getLatestTodo = attempt (getLatestTodo L),
      todoExists = (\<lambda>s i. attempt (\<lambda>db. todoExists L db i) s),
      updateTodo = (\<lambda>s i ti de st. attempt (\<lambda>db. updateTodo L db i ti de st) s),
      deleteTodo = (\<lambda>s i. attempt (\<lambda>db. deleteTodo L db i) s)\<rparr>"

text \<open>The decimal numeral of a natural number, as it stands in the path \<open>/todos/7\<close>.\<close>

fun decimal :: "nat \<Rightarrow> jsstring" where
  "decimal n =
     (if n < 10 then [0x30 + of_nat n]
      else decimal (n div 10) @ [0x30 + of_nat (n mod 10)])"

declare decimal.simps [simp del]

section \<open>Predicates of the specification\<close>

text \<open>
  A normalized title: not empty, no white space at either end, and every white-space
  character in it is a single space that no white space follows.
\<close>

fun single_spaced :: "jsstring \<Rightarrow> bool" where
  "single_spaced [] = True"
| "single_spaced [c] = (is_ws c \<longrightarrow> c = 0x0020)"
| "single_spaced (c # d # cs) = ((is_ws c \<longrightarrow> c = 0x0020 \<and> \<not> is_ws d) \<and> single_spaced (d # cs))"

definition normalized :: "jsstring \<Rightarrow> bool" where
  "normalized t \<longleftrightarrow> t \<noteq> [] \<and> \<not> is_ws (hd t) \<and> \<not> is_ws (last t) \<and> single_spaced t"

text \<open>A decimal digit, \<open>0\<close> to \<open>9\<close>.\<close>

definition is_dec :: "jschar \<Rightarrow> bool" where
  "is_dec c \<longleftrightarrow> (\<exists>d<10. c = 0x30 + of_nat d)"

text \<open>
  A create request reaches the persistence layer when it has passed the checks of the
  hardened handler: a title that is truthy and not empty once sanitized, and a description
  that is neither too long nor rejected by \<open>isValidDescription\<close>. The status handed to
  the layer is the one of the request if it is valid, else the default.
\<close>

definition create_reaches_db :: "jsval \<Rightarrow> jsval \<Rightarrow> bool" where
  "create_reaches_db T D \<longleftrightarrow>
     truthy T \<and> sanitizeTitle T \<noteq> [] \<and> \<not> isDescriptionTooLong (or_null D) 1000 \<and>
     isValidDescription (or_null D) = Inr True"

definition stored_status :: "jsval \<Rightarrow> jsval" where
  "stored_status S = (if isValidStatus S then S else JStr DEFAULT_STATUS)"

text \<open>
  The invariant of the stored collection: every row has a normalized title and one of the
  four statuses. A response respects it when the rows it carries do.
\<close>

definition row_ok :: "row \<Rightarrow> bool" where
  "row_ok r \<longleftrightarrow>
     (case title r of JStr s \<Rightarrow> normalized s | _ \<Rightarrow> False) \<and> isValidStatus (status r)"

definition todo_inv :: "table \<Rightarrow> bool" where
  "todo_inv t \<longleftrightarrow> (\<forall>r\<in>set (rows t). row_ok r)"

fun body_ok :: "body \<Rightarrow> bool" where
  "body_ok (TodoBody (Some r)) = row_ok r"
| "body_ok (TodosBody rs) = (\<forall>r\<in>set rs. row_ok r)"
| "body_ok _ = True"

fun outcome_ok :: "uncaught + response \<Rightarrow> bool" where
  "outcome_ok (Inr resp) = body_ok (body resp)"
| "outcome_ok (Inl e) = True"


section \<open>Properties of the validators\<close>

subsection \<open>Trimming and collapsing\<close>

lemma trim_ws_only: "\<forall>c\<in>set s. is_ws c \<Longrightarrow> trim s = []"
proof -
  assume "\<forall>c\<in>set s. is_ws c"
  then have "dropWhile is_ws s = []" by simp
  then show ?thesis unfolding trim_def by (simp only: rev.simps dropWhile.simps)
qed

lemma trim_hd: "trim s \<noteq> [] \<Longrightarrow> \<not> is_ws (hd (trim s))"
proof -
  assume a: "trim s \<noteq> []"
  let ?u = "dropWhile is_ws (rev (dropWhile is_ws s))"
  have u: "?u \<noteq> []" using a by (simp add: trim_def)
  have d: "dropWhile is_ws s \<noteq> []"
  proof
    assume "dropWhile is_ws s = []"
    then have "?u = []" by (simp only: rev.simps dropWhile.simps)
    then show False using u by simp
  qed
  then have h: "\<not> is_ws (hd (dropWhile is_ws s))" by (rule hd_dropWhile)
  have "\<not> is_ws (last (rev (dropWhile is_ws s)))"
    using h by (metis last_rev)
  moreover have "last ?u = last (rev (dropWhile is_ws s))"
    using u by (metis takeWhile_dropWhile_id last_appendR)
  ultimately have "\<not> is_ws (last ?u)" by simp
  then show ?thesis using u by (simp add: trim_def hd_rev)
qed

lemma trim_last: "trim s \<noteq> [] \<Longrightarrow> \<not> is_ws (last (trim s))"
proof -
  assume a: "trim s \<noteq> []"
  let ?u = "dropWhile is_ws (rev (dropWhile is_ws s))"
  have u: "?u \<noteq> []" using a by (simp add: trim_def)
  then have "\<not> is_ws (hd ?u)" by (rule hd_dropWhile)
  then show ?thesis using u by (simp add: trim_def last_rev)
qed

lemma collapse_ws_Nil: "collapse_ws s = [] \<longleftrightarrow> s = []"
  by (cases s) auto

lemma collapse_ws_hd: "s \<noteq> [] \<Longrightarrow> \<not> is_ws (hd s) \<Longrightarrow> hd (collapse_ws s) = hd s"
  by (cases s) auto

lemma is_ws_space: "is_ws 0x0020"
  by (simp add: is_ws_def)

lemma collapse_ws_single_spaced: "single_spaced (collapse_ws s)"
proof (induction s rule: collapse_ws.induct)
  case 1
  then show ?case by simp
next
  case (2 c cs)
  show ?case
  proof (cases "is_ws c")
    case True
    define r where "r = dropWhile is_ws cs"
    have eq: "collapse_ws (c # cs) = 0x0020 # collapse_ws r"
      using True by (simp add: r_def)
    have ih: "single_spaced (collapse_ws r)" using 2(1) True by (simp add: r_def)
    show ?thesis
    proof (cases r)
      case Nil
      then show ?thesis unfolding eq by simp
    next
      case (Cons d ds)
      then have "\<not> is_ws (hd r)"
        unfolding r_def by (metis hd_dropWhile list.distinct(1))
      then have nd: "\<not> is_ws d" using Cons by simp
      show ?thesis unfolding eq using ih Cons nd by simp
    qed
  next
    case False
    have "single_spaced (collapse_ws cs)" using 2(2) False by simp
    then show ?thesis using False by (cases "collapse_ws cs") auto
  qed
qed

lemma collapse_ws_last:
  "s \<noteq> [] \<Longrightarrow> \<not> is_ws (last s) \<Longrightarrow> \<not> is_ws (last (collapse_ws s))"
proof (induction s rule: collapse_ws.induct)
  case 1
  then show ?case by simp
next
  case (2 c cs)
  show ?case
  proof (cases "is_ws c")
    case True
    define r where "r = dropWhile is_ws cs"
    have eq: "collapse_ws (c # cs) = 0x0020 # collapse_ws r"
      using True by (simp add: r_def)
    have "cs \<noteq> []" using 2(4) True by auto
    have r: "r \<noteq> []"
    proof
      assume "r = []"
      then have "\<forall>x\<in>set cs. is_ws x" by (simp add: r_def)
      then have "is_ws (last cs)" using \<open>cs \<noteq> []\<close> by simp
      then show False using 2(4) \<open>cs \<noteq> []\<close> by simp
    qed
    have "takeWhile is_ws cs @ r = cs" by (simp add: r_def)
    then have "last r = last cs" using r by (metis last_appendR)
    then have nl: "\<not> is_ws (last r)" using 2(4) \<open>cs \<noteq> []\<close> by simp
    have "\<not> is_ws (last (collapse_ws r))"
      using 2(1) [OF True] r nl unfolding r_def by blast
    then show ?thesis unfolding eq using r by (simp add: collapse_ws_Nil)
  next
    case False
    show ?thesis
    proof (cases cs)
      case Nil
      then show ?thesis using False by simp
    next
      case (Cons d ds)
      then have "\<not> is_ws (last cs)" using 2(4) by simp
      then have "\<not> is_ws (last (collapse_ws cs))" using 2(2) False Cons by simp
      then show ?thesis using False Cons by (simp add: collapse_ws_Nil)
    qed
  qed
qed

lemma sanitizeTitle_normalized:
  assumes "sanitizeTitle v \<noteq> []"
  shows "normalized (sanitizeTitle v)"
proof (cases v)
  case (JStr s)
  have t: "trim s \<noteq> []" using assms JStr by (auto simp: Let_def split: if_splits)
  have eq: "sanitizeTitle v = collapse_ws (trim s)"
    using assms JStr by (auto simp: Let_def split: if_splits)
  have "hd (collapse_ws (trim s)) = hd (trim s)"
    using t trim_hd by (simp add: collapse_ws_hd)
  then show ?thesis
    unfolding normalized_def eq
    using t trim_hd [OF t] trim_last [OF t] collapse_ws_last [OF t] collapse_ws_single_spaced
    by (simp add: collapse_ws_Nil)
qed (use assms in auto)

lemma sanitizeTitle_ws_only: "\<forall>c\<in>set s. is_ws c \<Longrightarrow> sanitizeTitle (JStr s) = []"
  by (simp add: trim_ws_only)

subsection \<open>Parsing an id\<close>

lemma digit_char: "d < 10 \<Longrightarrow> digit_val (0x30 + of_nat d) = Some d"
proof -
  assume "d < 10"
  then have "d = 0 \<or> d = 1 \<or> d = 2 \<or> d = 3 \<or> d = 4 \<or> d = 5 \<or> d = 6 \<or> d = 7 \<or> d = 8 \<or> d = 9"
    by presburger
  then show ?thesis by (auto simp: digit_val_def)
qed

lemma digit_char_props:
  assumes "d < 10"
  shows "radix_digit 10 (0x30 + of_nat d)" and "\<not> is_ws (0x30 + of_nat d)"
    and "(0x30 + of_nat d :: jschar) \<noteq> 0x2D" and "(0x30 + of_nat d :: jschar) \<noteq> 0x2B"
    and "(0x30 + of_nat d :: jschar) \<noteq> 0x78" and "(0x30 + of_nat d :: jschar) \<noteq> 0x58"
proof -
  from assms have d: "d = 0 \<or> d = 1 \<or> d = 2 \<or> d = 3 \<or> d = 4 \<or> d = 5 \<or> d = 6 \<or> d = 7 \<or> d = 8 \<or> d = 9"
    by presburger
  show "radix_digit 10 (0x30 + of_nat d)"
    using digit_char [OF assms] assms by (simp add: radix_digit_def)
  show "\<not> is_ws (0x30 + of_nat d)" using d by (auto simp: is_ws_def)
  show "(0x30 + of_nat d :: jschar) \<noteq> 0x2D" using d by auto
  show "(0x30 + of_nat d :: jschar) \<noteq> 0x2B" using d by auto
  show "(0x30 + of_nat d :: jschar) \<noteq> 0x78" using d by auto
  show "(0x30 + of_nat d :: jschar) \<noteq> 0x58" using d by auto
qed

lemma decimal_chars: "c \<in> set (decimal n) \<Longrightarrow> is_dec c"
proof (induction n rule: decimal.induct)
  case (1 n)
  show ?case
  proof (cases "n < 10")
    case True
    then have "decimal n = [0x30 + of_nat n]" by (subst decimal.simps) simp
    then show ?thesis using 1(2) True by (auto simp: is_dec_def)
  next
    case False
    then have e: "decimal n = decimal (n div 10) @ [0x30 + of_nat (n mod 10)]"
      by (subst decimal.simps) simp
    have m: "n mod 10 < 10" by simp
    from 1(2) e have "c \<in> set (decimal (n div 10)) \<or> c = 0x30 + of_nat (n mod 10)" by auto
    then show ?thesis
    proof
      assume "c \<in> set (decimal (n div 10))"
      then show ?thesis using 1(1) False by simp
    next
      assume "c = 0x30 + of_nat (n mod 10)"
      then show ?thesis using m unfolding is_dec_def by blast
    qed
  qed
qed

lemma decimal_not_Nil: "decimal n \<noteq> []"
  by (subst decimal.simps) (simp del: decimal.simps)

lemma digits_value_snoc:
  "digits_value R (Z @ [c]) = digits_value R Z * int R + int (the (digit_val c))"
  by (simp add: digits_value_def)

lemma digits_value_decimal: "digits_value 10 (decimal n) = int n"
proof (induction n rule: decimal.induct)
  case (1 n)
  show ?case
  proof (cases "n < 10")
    case True
    then have "decimal n = [0x30 + of_nat n]" by (subst decimal.simps) simp
    then show ?thesis using True by (simp add: digits_value_def digit_char)
  next
    case False
    have m: "n mod 10 < 10" by simp
    have e: "decimal n = decimal (n div 10) @ [0x30 + of_nat (n mod 10)]"
      using False by (subst decimal.simps) simp
    have "digits_value 10 (decimal n) =
        digits_value 10 (decimal (n div 10)) * 10 + int (n mod 10)"
      unfolding e digits_value_snoc by (simp only: digit_char [OF m] option.sel)
    then have "digits_value 10 (decimal n) = int (n div 10) * 10 + int (n mod 10)"
      using 1 False by simp
    also have "\<dots> = int (n div 10 * 10 + n mod 10)"
      by (simp only: of_nat_add of_nat_mult of_nat_numeral)
    also have "\<dots> = int n" by (simp only: div_mult_mod_eq)
    finally show ?thesis .
  qed
qed

lemma digits_value_nonneg: "0 \<le> digits_value R Z"
proof -
  have "0 \<le> a \<Longrightarrow> 0 \<le> foldl (\<lambda>a c. a * int R + int (the (digit_val c))) a Z" for a
    by (induction Z arbitrary: a) simp_all
  then show ?thesis by (simp add: digits_value_def)
qed

lemma nearest_double_small: "m < 2 ^ 53 \<Longrightarrow> nearest_double m = Some m"
  by (simp add: nearest_double_def)

lemma nearest_double_nonneg: "0 \<le> m \<Longrightarrow> nearest_double m = Some v \<Longrightarrow> 0 \<le> v"
  by (auto simp: nearest_double_def Let_def pos_imp_zdiv_nonneg_iff split: if_splits)

lemma takeWhile_decimal: "takeWhile (radix_digit 10) (decimal n) = decimal n"
proof -
  have "\<forall>c\<in>set (decimal n). radix_digit 10 c"
    using decimal_chars digit_char_props(1) by (auto simp: is_dec_def)
  then show ?thesis by (simp add: takeWhile_eq_all_conv)
qed

lemma strip_prefix_decimal: "strip_prefix (decimal n) = (10, decimal n)"
proof (cases "2 \<le> length (decimal n)")
  case True
  then obtain a b r where s: "decimal n = a # b # r"
    by (metis Suc_le_length_iff numeral_2_eq_2)
  then have "is_dec b" using decimal_chars [of b n] by simp
  then have "b \<noteq> 0x78" "b \<noteq> 0x58" using digit_char_props(5,6) by (auto simp: is_dec_def)
  then show ?thesis using s by (simp add: strip_prefix_def lit_def)
next
  case False
  then show ?thesis by (simp add: strip_prefix_def)
qed

lemma hd_decimal: "\<exists>c cs. decimal n = c # cs \<and> is_dec c"
proof -
  obtain c cs where s: "decimal n = c # cs" using decimal_not_Nil by (cases "decimal n") auto
  then have "is_dec c" using decimal_chars [of c n] by simp
  then show ?thesis using s by blast
qed

text \<open>What \<open>parseInt\<close> makes of a numeral, and of a numeral after a minus sign.\<close>

lemma parseInt_decimal_cases:
  "parseInt (decimal n) =
     (case nearest_double (int n) of None \<Rightarrow> Infinity | Some v \<Rightarrow> Finite v)"
proof -
  obtain c cs where s: "decimal n = c # cs" and c: "is_dec c" using hd_decimal by blast
  have nws: "\<not> is_ws c" and ns: "c \<noteq> 0x2D" "c \<noteq> 0x2B"
    using c digit_char_props by (auto simp: is_dec_def)
  have "dropWhile is_ws (decimal n) = decimal n" using s nws by simp
  moreover have "strip_sign (decimal n) = (1, decimal n)" using s ns by (simp add: strip_sign_def)
  ultimately show ?thesis
    by (simp add: parseInt_def strip_prefix_decimal takeWhile_decimal decimal_not_Nil
        digits_value_decimal split: option.splits)
qed

lemma parseInt_minus_decimal_cases:
  "parseInt (0x2D # decimal n) =
     (case nearest_double (int n) of None \<Rightarrow> NegInfinity | Some v \<Rightarrow> Finite (- v))"
proof -
  have "\<not> is_ws 0x2D" by (simp add: is_ws_def)
  then have "dropWhile is_ws (0x2D # decimal n) = 0x2D # decimal n" by simp
  moreover have "strip_sign (0x2D # decimal n) = (- 1, decimal n)" by (simp add: strip_sign_def)
  ultimately show ?thesis
    by (simp add: parseInt_def strip_prefix_decimal takeWhile_decimal decimal_not_Nil
        digits_value_decimal split: option.splits)
qed

lemma parseInt_decimal: "int n < 2 ^ 53 \<Longrightarrow> parseInt (decimal n) = Finite (int n)"
  by (simp add: parseInt_decimal_cases nearest_double_small)

lemma parseInt_minus_decimal: "le_zero (parseInt (0x2D # decimal n))"
proof (cases "nearest_double (int n)")
  case None
  then show ?thesis by (simp add: parseInt_minus_decimal_cases)
next
  case (Some v)
  then have "0 \<le> v" using nearest_double_nonneg [of "int n" v] by simp
  then show ?thesis using Some by (simp add: parseInt_minus_decimal_cases)
qed

lemma parseInt_not_numeric:
  assumes "\<not> is_ws c" and "c \<noteq> 0x2D" and "c \<noteq> 0x2B" and "\<not> radix_digit 10 c"
  shows "parseInt (c # cs) = NaN"
proof -
  have "c \<noteq> 0x30" using assms(4) by (auto simp: radix_digit_def digit_val_def)
  then have "strip_prefix (c # cs) = (10, c # cs)" by (auto simp: strip_prefix_def lit_def)
  then show ?thesis using assms by (simp add: parseInt_def strip_sign_def)
qed

lemma validateTodoId_iff:
  "isValid (validateTodoId ident) \<longleftrightarrow>
     (\<exists>n. parseInt ident = Finite n \<and> 0 < n) \<or> parseInt ident = Infinity"
  by (cases "parseInt ident") (auto simp: validateTodoId_def Let_def)

lemma validateTodoId_invalid:
  "\<not> isValid (validateTodoId ident) \<Longrightarrow> error (validateTodoId ident) = JStr (lit ''Invalid ID'')"
  by (auto simp: validateTodoId_def Let_def split: if_splits)

lemma validateTodoId_invalid_iff:
  "\<not> isValid (validateTodoId ident) \<longleftrightarrow> isNaN (parseInt ident) \<or> le_zero (parseInt ident)"
  by (auto simp: validateTodoId_def Let_def)

lemma validateTodoId_valid:
  "isValid (validateTodoId ident) \<Longrightarrow> parsedId (validateTodoId ident) = Some (parseInt ident)"
  by (auto simp: validateTodoId_def Let_def split: if_splits)

subsection \<open>Facts used by several claims\<close>

lemma valid_id_simps:
  "isValid (validateTodoId ident) \<Longrightarrow>
     isValid (validateTodoId ident) \<and> parsedId (validateTodoId ident) = Some (parseInt ident)"
  by (simp add: validateTodoId_valid)

lemma finite_id_valid:
  "parseInt ident = Finite n \<Longrightarrow> 0 < n \<Longrightarrow> isValid (validateTodoId ident)"
  by (simp add: validateTodoId_iff)

lemma lit_distinct:
  "lit ''Title required'' \<noteq> lit ''Title cannot be empty''"
  "lit ''Description is too long (max 1000 characters)'' \<noteq> lit ''Description contains invalid content''"
  by (simp_all add: lit_def)

lemma isValidStatus_default: "isValidStatus (JStr DEFAULT_STATUS)"
  by (simp add: DEFAULT_STATUS_def validStatuses_def)

subsection \<open>Failures of the persistence layer\<close>

lemma db_failure_simps [simp]:
  "db_failure Nullish = Inl TypeError"
  "db_failure (DbError m) =
     Inr (json (ErrorBody (if truthy m then m else JStr (lit ''DB failure''))) 500)"
  by (simp_all add: db_failure_def)

lemma db_failure_not_Rejected [simp]: "db_failure err \<noteq> Inl (Rejected e)"
  by (cases err) simp_all

lemma get_todos_caught: "fst (get_todos L db) \<noteq> Inl (Rejected e)"
  by (simp add: get_todos_def split: prod.splits sum.splits)

lemma simple_get_todos_caught: "fst (simple_get_todos L db) \<noteq> Inl (Rejected e)"
  by (simp add: simple_get_todos_def split: prod.splits sum.splits)

lemma get_todo_caught: "fst (get_todo L ident db) \<noteq> Inl (Rejected e)"
  by (simp add: get_todo_def Let_def split: prod.splits sum.splits)

lemma delete_todo_caught: "fst (delete_todo L ident db) \<noteq> Inl (Rejected e)"
  by (simp add: delete_todo_def Let_def split: prod.splits sum.splits)

lemma isValidDescription_not_Rejected: "isValidDescription v \<noteq> Inl (Rejected e)"
  by (cases v) (auto split: if_splits)

lemma post_todos_caught: "fst (post_todos L request db) \<noteq> Inl (Rejected e)"
  using isValidDescription_not_Rejected
  by (auto simp: post_todos_def Let_def
      split: option.splits req_body.splits prod.splits sum.splits bool.splits)

lemma put_todo_caught: "fst (put_todo L ident request db) \<noteq> Inl (Rejected e)"
  by (auto simp: put_todo_def Let_def
      split: option.splits req_body.splits prod.splits sum.splits)

lemma get_todos_500:
  "getAllTodos L db = (Inl err, db1) \<Longrightarrow> get_todos L db = (db_failure err, db1)"
  by (simp add: get_todos_def)

lemma simple_get_todos_500:
  "getAllTodos L db = (Inl err, db1) \<Longrightarrow> simple_get_todos L db = (db_failure err, db1)"
  by (simp add: simple_get_todos_def)

lemma get_todo_500:
  "isValid (validateTodoId ident) \<Longrightarrow> getTodoById L db (parseInt ident) = (Inl err, db1) \<Longrightarrow>
     get_todo L ident db = (db_failure err, db1)"
  using valid_id_simps [of ident] by (simp add: get_todo_def)

lemma delete_todo_500:
  "isValid (validateTodoId ident) \<Longrightarrow> deleteTodo L db (parseInt ident) = (Inl err, db1) \<Longrightarrow>
     delete_todo L ident db = (db_failure err, db1)"
  using valid_id_simps [of ident] by (simp add: delete_todo_def)

lemma post_todos_reaches:
  "create_reaches_db T D \<Longrightarrow>
     post_todos L (Some (BodyObject T D S)) db =
       (case insertTodo L db (JStr (sanitizeTitle T)) (or_null D) (stored_status S) of
          (Inl err, db1) \<Rightarrow> (db_failure err, db1)
        | (Inr inserted, db1) \<Rightarrow>
            (case getLatestTodo L db1 of
               (Inl err, db2) \<Rightarrow> (db_failure err, db2)
             | (Inr results, db2) \<Rightarrow> (Inr (json (TodoBody (first_row results)) 201), db2)))"
  by (simp add: create_reaches_db_def post_todos_def stored_status_def Let_def)

lemma put_todo_reaches:
  "isValid (validateTodoId ident) \<Longrightarrow> truthy T \<Longrightarrow> sanitizeTitle T \<noteq> [] \<Longrightarrow>
     put_todo L ident (Some (BodyObject T D S)) db =
       (case todoExists L db (parseInt ident) of
          (Inl err, db1) \<Rightarrow> (db_failure err, db1)
        | (Inr exists, db1) \<Rightarrow>
            if exists = None \<or> length (the exists) = 0
            then (Inr (json (ErrorBody (JStr (lit ''Not found''))) 404), db1)
            else if isDescriptionTooLong (or_null D) 1000
            then (Inr (json (ErrorBody
                    (JStr (lit ''Description is too long (max 1000 characters)''))) 400), db1)
            else
              (case updateTodo L db1 (parseInt ident) (JStr (sanitizeTitle T)) (or_null D)
                      (stored_status S) of
                 (Inl err, db2) \<Rightarrow> (db_failure err, db2)
               | (Inr res, db2) \<Rightarrow>
                   (case getTodoById L db2 (parseInt ident) of
                      (Inl err, db3) \<Rightarrow> (db_failure err, db3)
                    | (Inr updated, db3) \<Rightarrow>
                        (Inr (json (TodoBody (first_row updated)) 200), db3))))"
proof -
  assume a: "isValid (validateTodoId ident)" "truthy T" "sanitizeTitle T \<noteq> []"
  note v = valid_id_simps [OF a(1)]
  obtain r db1 where e: "todoExists L db (parseInt ident) = (r, db1)"
    by (cases "todoExists L db (parseInt ident)")
  show ?thesis
  proof (cases r)
    case (Inl err)
    then show ?thesis using a v e by (simp add: put_todo_def)
  next
    case (Inr exists)
    then show ?thesis using a v e by (simp add: put_todo_def stored_status_def Let_def)
  qed
qed

lemma post_todos_500:
  assumes "create_reaches_db T D"
  shows "insertTodo L db (JStr (sanitizeTitle T)) (or_null D) (stored_status S) = (Inl err, db1)
           \<Longrightarrow> post_todos L (Some (BodyObject T D S)) db = (db_failure err, db1)"
    and "insertTodo L db (JStr (sanitizeTitle T)) (or_null D) (stored_status S) = (Inr res, db1)
           \<Longrightarrow> getLatestTodo L db1 = (Inl err, db2)
           \<Longrightarrow> post_todos L (Some (BodyObject T D S)) db = (db_failure err, db2)"
  by (simp_all add: post_todos_reaches [OF assms])

lemma put_todo_500:
  assumes "isValid (validateTodoId ident)" "truthy T" "sanitizeTitle T \<noteq> []"
  shows "todoExists L db (parseInt ident) = (Inl err, db1)
           \<Longrightarrow> put_todo L ident (Some (BodyObject T D S)) db = (db_failure err, db1)"
    and "todoExists L db (parseInt ident) = (Inr (Some (x # xs)), db1)
           \<Longrightarrow> \<not> isDescriptionTooLong (or_null D) 1000
           \<Longrightarrow> updateTodo L db1 (parseInt ident) (JStr (sanitizeTitle T)) (or_null D)
                 (stored_status S) = (Inl err, db2)
           \<Longrightarrow> put_todo L ident (Some (BodyObject T D S)) db = (db_failure err, db2)"
    and "todoExists L db (parseInt ident) = (Inr (Some (x # xs)), db1)
           \<Longrightarrow> \<not> isDescriptionTooLong (or_null D) 1000
           \<Longrightarrow> updateTodo L db1 (parseInt ident) (JStr (sanitizeTitle T)) (or_null D)
                 (stored_status S) = (Inr res, db2)
           \<Longrightarrow> getTodoById L db2 (parseInt ident) = (Inl err, db3)
           \<Longrightarrow> put_todo L ident (Some (BodyObject T D S)) db = (db_failure err, db3)"
  by (simp_all add: put_todo_reaches [OF assms])

subsection \<open>The table\<close>

lemma d1_sel [simp]:
  "getAllTodos d1 = d1_getAllTodos" "getTodoById d1 = d1_getTodoById"
  "insertTodo d1 = d1_insertTodo" "getLatestTodo d1 = d1_getLatestTodo"
  "todoExists d1 = d1_todoExists" "updateTodo d1 = d1_updateTodo"
  "deleteTodo d1 = d1_deleteTodo"
  by (simp_all add: d1_def)

lemma faulty_sel [simp]:
  "getAllTodos (faulty L) = attempt (getAllTodos L)"
  "getTodoById (faulty L) s i = attempt (\<lambda>db. getTodoById L db i) s"
  "insertTodo (faulty L) s ti de st = attempt (\<lambda>db. insertTodo L db ti de st) s"
  "getLatestTodo (faulty L) = attempt (getLatestTodo L)"
  "todoExists (faulty L) s i = attempt (\<lambda>db. todoExists L db i) s"
  "updateTodo (faulty L) s i ti de st = attempt (\<lambda>db. updateTodo L db i ti de st) s"
  "deleteTodo (faulty L) s i = attempt (\<lambda>db. deleteTodo L db i) s"
  by (simp_all add: faulty_def)

lemma attempt_cases:
  obtains (fails) e fs' where "attempt f (db, fs) = (Inl e, (db, fs'))" "fs = Some e # fs'"
  | (runs) fs' where "attempt f (db, fs) = (fst (f db), (snd (f db), fs'))"
      "fs = [] \<and> fs' = [] \<or> fs = None # fs'"
proof (cases fs)
  case Nil
  then have "attempt f (db, fs) = (fst (f db), (snd (f db), []))"
    by (simp split: prod.splits)
  then show ?thesis using Nil runs by blast
next
  case (Cons a fs')
  show ?thesis
  proof (cases a)
    case None
    then have "attempt f (db, fs) = (fst (f db), (snd (f db), fs'))"
      using Cons by (simp split: prod.splits)
    then show ?thesis using Cons None runs by blast
  next
    case (Some e)
    then show ?thesis using Cons fails by simp
  qed
qed

lemma fold_max_ge: "(a::int) \<le> fold max xs a"
proof (induction xs arbitrary: a)
  case Nil
  then show ?case by simp
next
  case (Cons x xs)
  have "max x a \<le> fold max xs (max x a)" by (rule Cons.IH)
  then show ?case by simp
qed

lemma fold_max_mem: "(x::int) \<in> set xs \<Longrightarrow> x \<le> fold max xs a"
proof (induction xs arbitrary: a)
  case Nil
  then show ?case by simp
next
  case (Cons y ys)
  show ?case
  proof (cases "x = y")
    case True
    have "max y a \<le> fold max ys (max y a)" by (rule fold_max_ge)
    then show ?thesis using True by simp
  next
    case False
    then have "x \<in> set ys" using Cons.prems by simp
    then show ?thesis using Cons.IH by simp
  qed
qed

lemma next_id_pos: "0 < next_id t"
proof -
  have "int (seq t) \<le> fold max (map todo_id (rows t)) (int (seq t))" by (rule fold_max_ge)
  then show ?thesis by (simp add: next_id_def)
qed

lemma next_id_fresh: "r \<in> set (rows t) \<Longrightarrow> todo_id r < next_id t"
proof -
  assume "r \<in> set (rows t)"
  then have "todo_id r \<in> set (map todo_id (rows t))" by simp
  then have "todo_id r \<le> fold max (map todo_id (rows t)) (int (seq t))" by (rule fold_max_mem)
  then show ?thesis by (simp add: next_id_def)
qed

lemma latest_mem:
  "fold (\<lambda>x best. if todo_id best < todo_id x then x else best) rs (r::row) \<in> set (r # rs)"
proof (induction rs arbitrary: r)
  case Nil
  then show ?case by simp
next
  case (Cons x xs)
  show ?case using Cons.IH [of x] Cons.IH [of r] by auto
qed

lemma d1_getLatestTodo_new:
  assumes "\<forall>r\<in>set rs. todo_id r < todo_id new"
  shows "d1_getLatestTodo \<lparr>rows = rs @ [new], seq = k\<rparr> = (Inr [new], \<lparr>rows = rs @ [new], seq = k\<rparr>)"
proof (cases rs)
  case Nil
  then show ?thesis by (simp add: d1_getLatestTodo_def)
next
  case (Cons r rs')
  let ?f = "\<lambda>x best. if todo_id best < todo_id x then x else best"
  have "fold ?f rs' r \<in> set rs" using latest_mem [of rs' r] Cons by simp
  then have "todo_id (fold ?f rs' r) < todo_id new" using assms by blast
  then have "fold ?f (rs' @ [new]) r = new" by simp
  then show ?thesis using Cons by (simp add: d1_getLatestTodo_def)
qed

lemma d1_insertTodo_eq:
  "d1_insertTodo t ti de st =
     (Inr (changed 1),
      \<lparr>rows = rows t @ [\<lparr>todo_id = next_id t, title = ti, description = de, status = st\<rparr>],
       seq = nat (next_id t)\<rparr>)"
  by (simp add: d1_insertTodo_def Let_def)

lemma filter_none: "length (filter P xs) = 0 \<Longrightarrow> filter (\<lambda>x. \<not> P x) xs = xs"
  by (induction xs) (auto split: if_splits)

lemma id_is_Finite: "id_is i r \<Longrightarrow> i = Finite (todo_id r)"
  by (cases i) simp_all

lemma changed_meta [simp]:
  "meta (changed k) = Some (Meta (JNum (of_nat k)))"
  "changes (the (meta (changed k))) = JNum (of_nat k)"
  by (simp_all add: changed_def)

lemma changed_zero [simp]: "(JNum (of_nat k) = JNum 0) = (k = 0)"
  by simp

subsection \<open>The hardened handlers on the table\<close>

lemma post_todos_d1:
  assumes "create_reaches_db T D"
  shows "post_todos d1 (Some (BodyObject T D S)) t =
    (Inr (json (TodoBody (Some \<lparr>todo_id = next_id t, title = JStr (sanitizeTitle T),
                                 description = or_null D, status = stored_status S\<rparr>)) 201),
     \<lparr>rows = rows t @ [\<lparr>todo_id = next_id t, title = JStr (sanitizeTitle T),
                          description = or_null D, status = stored_status S\<rparr>],
      seq = nat (next_id t)\<rparr>)"
proof -
  let ?new = "\<lparr>todo_id = next_id t, title = JStr (sanitizeTitle T),
                description = or_null D, status = stored_status S\<rparr>"
  have "\<forall>r\<in>set (rows t). todo_id r < todo_id ?new" using next_id_fresh by simp
  then have l: "d1_getLatestTodo \<lparr>rows = rows t @ [?new], seq = nat (next_id t)\<rparr> =
      (Inr [?new], \<lparr>rows = rows t @ [?new], seq = nat (next_id t)\<rparr>)"
    by (rule d1_getLatestTodo_new)
  show ?thesis
    unfolding post_todos_reaches [OF assms] by (simp add: d1_insertTodo_eq l)
qed

lemma post_todos_201:
  assumes "post_todos L (Some (BodyObject T D S)) db = (Inr resp, db')" "http_status resp = 201"
  shows "create_reaches_db T D"
proof -
  have "isValidDescription (or_null D) = Inr True"
    using assms
    by (auto simp: post_todos_def Let_def json_def
        split: if_splits sum.splits bool.splits)
  then show ?thesis
    using assms
    by (auto simp: create_reaches_db_def post_todos_def Let_def json_def split: if_splits)
qed

lemma get_todo_d1_new:
  assumes "\<forall>r\<in>set rs. todo_id r < todo_id new" and "0 < todo_id new"
    and "todo_id new < 2 ^ 53"
  shows "get_todo d1 (decimal (nat (todo_id new))) \<lparr>rows = rs @ [new], seq = k\<rparr> =
           (Inr (json (TodoBody (Some new)) 200), \<lparr>rows = rs @ [new], seq = k\<rparr>)"
proof -
  have p: "parseInt (decimal (nat (todo_id new))) = Finite (todo_id new)"
    using assms(2,3) parseInt_decimal [of "nat (todo_id new)"] by simp
  have "filter (id_is (Finite (todo_id new))) rs = []"
    using assms(1) by (auto simp: filter_empty_conv)
  then have f: "d1_getTodoById \<lparr>rows = rs @ [new], seq = k\<rparr> (Finite (todo_id new)) =
      (Inr [new], \<lparr>rows = rs @ [new], seq = k\<rparr>)"
    by (simp add: d1_getTodoById_def)
  show ?thesis
    using valid_id_simps [OF finite_id_valid [OF p assms(2)]] f p by (simp add: get_todo_def)
qed

lemma filter_map_update:
  "filter (id_is i)
     (map (\<lambda>r. if id_is i r then r\<lparr>title := ti, description := de, status := st\<rparr> else r) rs) =
   map (\<lambda>r. r\<lparr>title := ti, description := de, status := st\<rparr>) (filter (id_is i) rs)"
  by (cases i) (induction rs, auto)+


lemma put_todo_d1:
  assumes "parseInt ident = Finite n" "0 < n" "truthy T" "sanitizeTitle T \<noteq> []"
    and "r0 \<in> set (rows t)" "todo_id r0 = n" "\<not> isDescriptionTooLong (or_null D) 1000"
  shows "\<exists>r. put_todo d1 ident (Some (BodyObject T D S)) t =
      (Inr (json (TodoBody (Some r)) 200),
       t\<lparr>rows := map (\<lambda>r. if todo_id r = n
           then r\<lparr>title := JStr (sanitizeTitle T), description := or_null D,
                  status := stored_status S\<rparr> else r) (rows t)\<rparr>) \<and>
      todo_id r = n \<and> title r = JStr (sanitizeTitle T) \<and> description r = or_null D \<and>
      status r = stored_status S"
proof -
  let ?upd = "\<lambda>r. r\<lparr>title := JStr (sanitizeTitle T), description := or_null D,
                  status := stored_status S\<rparr>"
  have i: "id_is (Finite n) = (\<lambda>r. todo_id r = n)" by (rule ext) simp
  obtain x xs where f: "filter (\<lambda>r. todo_id r = n) (rows t) = x # xs"
    using assms(5,6) by (cases "filter (\<lambda>r. todo_id r = n) (rows t)") (auto simp: filter_empty_conv)
  then have "x \<in> set (filter (\<lambda>r. todo_id r = n) (rows t))" by simp
  then have xn: "todo_id x = n" by simp
  have e: "d1_todoExists t (Finite n) = (Inr (Some (() # map (\<lambda>r. ()) xs)), t)"
    by (simp add: d1_todoExists_def i f)
  have fm: "filter (\<lambda>r. todo_id r = n)
              (map (\<lambda>r. if todo_id r = n then ?upd r else r) (rows t)) =
            map ?upd (filter (\<lambda>r. todo_id r = n) (rows t))"
    using filter_map_update [of "Finite n"] by (simp add: i)
  have "put_todo d1 ident (Some (BodyObject T D S)) t =
      (Inr (json (TodoBody (Some (?upd x))) 200),
       t\<lparr>rows := map (\<lambda>r. if todo_id r = n then ?upd r else r) (rows t)\<rparr>)"
    unfolding put_todo_reaches [OF finite_id_valid [OF assms(1,2)] assms(3,4)] assms(1)
    using assms(7) by (simp add: e d1_updateTodo_def d1_getTodoById_def i fm f)
  then show ?thesis using xn by (intro exI [of _ "?upd x"]) simp
qed

subsection \<open>The outcomes of the hardened handlers on a table that can fail\<close>

lemma get_todos_faulty_cases:
  assumes "get_todos (faulty d1) (t, fs) = (out, (t', fs'))"
  obtains (failed) e where "t' = t" "out = db_failure e"
  | (listed) "t' = t" "out = Inr (json (TodosBody (rows t)) 200)"
proof (cases rule: attempt_cases [of d1_getAllTodos t fs])
  case (fails e fs1)
  then have "get_todos (faulty d1) (t, fs) = (db_failure e, (t, fs1))"
    by (simp add: get_todos_def)
  then show ?thesis using assms failed by simp
next
  case (runs fs1)
  then have "get_todos (faulty d1) (t, fs) = (Inr (json (TodosBody (rows t)) 200), (t, fs1))"
    by (simp add: get_todos_def d1_getAllTodos_def)
  then show ?thesis using assms listed by simp
qed

lemma get_todo_faulty_cases:
  assumes "get_todo (faulty d1) ident (t, fs) = (out, (t', fs'))"
  obtains (rejected) m where "t' = t" "out = Inr (json (ErrorBody m) 400)"
  | (failed) e where "t' = t" "out = db_failure e"
  | (missing) "t' = t" "out = Inr (json (ErrorBody (JStr (lit ''Not found''))) 404)"
  | (found) r where "t' = t" "r \<in> set (rows t)" "out = Inr (json (TodoBody (Some r)) 200)"
proof (cases "isValid (validateTodoId ident)")
  case False
  then have "get_todo (faulty d1) ident (t, fs) =
      (Inr (json (ErrorBody (error (validateTodoId ident))) 400), (t, fs))"
    by (simp add: get_todo_def)
  then show ?thesis using assms rejected by simp
next
  case True
  define i where "i = parseInt ident"
  have n: "parsedId (validateTodoId ident) = Some i"
    using True validateTodoId_valid by (simp add: i_def)
  show ?thesis
  proof (cases rule: attempt_cases [of "\<lambda>db. d1_getTodoById db i" t fs])
    case (fails e fs1)
    then have "get_todo (faulty d1) ident (t, fs) = (db_failure e, (t, fs1))"
      using True n by (simp add: get_todo_def)
    then show ?thesis using assms failed by simp
  next
    case (runs fs1)
    let ?rs = "filter (id_is i) (rows t)"
    have a: "attempt (\<lambda>db. d1_getTodoById db i) (t, fs) = (Inr ?rs, (t, fs1))"
      using runs(1) by (simp add: d1_getTodoById_def)
    show ?thesis
    proof (cases ?rs)
      case Nil
      then have "get_todo (faulty d1) ident (t, fs) =
          (Inr (json (ErrorBody (JStr (lit ''Not found''))) 404), (t, fs1))"
        using True n a by (simp add: get_todo_def)
      then show ?thesis using assms missing by simp
    next
      case (Cons r rs)
      then have "r \<in> set ?rs" by simp
      then have m: "r \<in> set (rows t)" by simp
      have "get_todo (faulty d1) ident (t, fs) = (Inr (json (TodoBody (Some r)) 200), (t, fs1))"
        using True n a Cons by (simp add: get_todo_def)
      then show ?thesis using assms found m by simp
    qed
  qed
qed

lemma delete_todo_faulty_cases:
  assumes "delete_todo (faulty d1) ident (t, fs) = (out, (t', fs'))"
  obtains (rejected) m where "t' = t" "out = Inr (json (ErrorBody m) 400)"
  | (failed) e where "t' = t" "out = db_failure e"
  | (missing) "t' = t" "out = Inr (json (ErrorBody (JStr (lit ''Not found''))) 404)"
  | (deleted) i where "t' = t\<lparr>rows := filter (\<lambda>r. \<not> id_is i r) (rows t)\<rparr>"
      "out = Inr (json SuccessBody 200)"
proof (cases "isValid (validateTodoId ident)")
  case False
  then have "delete_todo (faulty d1) ident (t, fs) =
      (Inr (json (ErrorBody (error (validateTodoId ident))) 400), (t, fs))"
    by (simp add: delete_todo_def)
  then show ?thesis using assms rejected by simp
next
  case True
  define i where "i = parseInt ident"
  have n: "parsedId (validateTodoId ident) = Some i"
    using True validateTodoId_valid by (simp add: i_def)
  show ?thesis
  proof (cases rule: attempt_cases [of "\<lambda>db. d1_deleteTodo db i" t fs])
    case (fails e fs1)
    then have "delete_todo (faulty d1) ident (t, fs) = (db_failure e, (t, fs1))"
      using True n by (simp add: delete_todo_def)
    then show ?thesis using assms failed by simp
  next
    case (runs fs1)
    let ?k = "length (filter (id_is i) (rows t))"
    let ?t = "t\<lparr>rows := filter (\<lambda>r. \<not> id_is i r) (rows t)\<rparr>"
    have a: "attempt (\<lambda>db. d1_deleteTodo db i) (t, fs) = (Inr (changed ?k), (?t, fs1))"
      using runs(1) by (simp add: d1_deleteTodo_def)
    show ?thesis
    proof (cases "?k = 0")
      case z: True
      then have "filter (\<lambda>r. \<not> id_is i r) (rows t) = rows t" by (rule filter_none)
      then have same: "?t = t" by simp
      have "delete_todo (faulty d1) ident (t, fs) =
          (Inr (json (ErrorBody (JStr (lit ''Not found''))) 404), (?t, fs1))"
        using True n a z by (simp add: delete_todo_def)
      then show ?thesis using assms missing same by simp
    next
      case nz: False
      have "delete_todo (faulty d1) ident (t, fs) = (Inr (json SuccessBody 200), (?t, fs1))"
        using True n a nz by (simp add: delete_todo_def)
      then show ?thesis using assms deleted by simp
    qed
  qed
qed

lemma post_todos_rejected:
  assumes "\<not> create_reaches_db T D"
    and "post_todos L (Some (BodyObject T D S)) db = (out, db')"
  shows "db' = db \<and> ((\<exists>e. out = Inl e) \<or> (\<exists>m. out = Inr (json (ErrorBody m) 400)))"
proof (cases "truthy T \<and> sanitizeTitle T \<noteq> [] \<and> \<not> isDescriptionTooLong (or_null D) 1000")
  case False
  then show ?thesis using assms(2) by (auto simp: post_todos_def Let_def split: if_splits)
next
  case True
  then have nv: "isValidDescription (or_null D) \<noteq> Inr True"
    using assms(1) by (simp add: create_reaches_db_def)
  show ?thesis
  proof (cases "isValidDescription (or_null D)")
    case (Inl e)
    then show ?thesis using True assms(2) by (auto simp: post_todos_def Let_def)
  next
    case (Inr b)
    then have "b = False" using nv by simp
    then show ?thesis using True Inr assms(2) by (auto simp: post_todos_def Let_def)
  qed
qed

lemma post_todos_faulty_cases:
  assumes "post_todos (faulty d1) request (t, fs) = (out, (t', fs'))"
  obtains (rejected) "t' = t" "(\<exists>e. out = Inl e) \<or> (\<exists>m. out = Inr (json (ErrorBody m) 400))"
  | (insert_failed) e fs0 where "t' = t" "fs = Some e # fs0" "out = db_failure e"
  | (refetch_failed) T D S e fs0 where "create_reaches_db T D"
      "t' = \<lparr>rows = rows t @ [\<lparr>todo_id = next_id t, title = JStr (sanitizeTitle T),
                description = or_null D, status = stored_status S\<rparr>], seq = nat (next_id t)\<rparr>"
      "out = db_failure e" "fs = None # Some e # fs0"
  | (created) T D S where "create_reaches_db T D"
      "t' = \<lparr>rows = rows t @ [\<lparr>todo_id = next_id t, title = JStr (sanitizeTitle T),
                description = or_null D, status = stored_status S\<rparr>], seq = nat (next_id t)\<rparr>"
      "out = Inr (json (TodoBody (Some \<lparr>todo_id = next_id t, title = JStr (sanitizeTitle T),
                description = or_null D, status = stored_status S\<rparr>)) 201)"
proof (cases request)
  case None
  then have "post_todos (faulty d1) request (t, fs) =
      (Inr (json (ErrorBody (JStr (lit ''Invalid JSON''))) 400), (t, fs))"
    by (simp add: post_todos_def)
  then show ?thesis using assms rejected by auto
next
  case (Some b)
  show ?thesis
  proof (cases b)
    case BodyNull
    then have "post_todos (faulty d1) request (t, fs) = (Inl TypeError, (t, fs))"
      using Some by (simp add: post_todos_def)
    then show ?thesis using assms rejected by auto
  next
    case (BodyObject T D S)
    note req = Some BodyObject
    show ?thesis
    proof (cases "create_reaches_db T D")
      case False
      have "post_todos (faulty d1) (Some (BodyObject T D S)) (t, fs) = (out, (t', fs'))"
        using assms req by simp
      from post_todos_rejected [OF False this]
      have "t' = t" "(\<exists>e. out = Inl e) \<or> (\<exists>m. out = Inr (json (ErrorBody m) 400))"
        by simp_all
      then show ?thesis by (rule rejected)
    next
      case True
      let ?new = "\<lparr>todo_id = next_id t, title = JStr (sanitizeTitle T),
                description = or_null D, status = stored_status S\<rparr>"
      let ?t = "\<lparr>rows = rows t @ [?new], seq = nat (next_id t)\<rparr>"
      note unf = post_todos_reaches [OF True, of "faulty d1" S "(t, fs)"]
      show ?thesis
      proof (cases rule: attempt_cases
          [of "\<lambda>db. d1_insertTodo db (JStr (sanitizeTitle T)) (or_null D) (stored_status S)" t fs])
        case (fails e fs1)
        then have "post_todos (faulty d1) request (t, fs) = (db_failure e, (t, fs1))"
          unfolding req unf by simp
        then show ?thesis using assms insert_failed fails(2) by simp
      next
        case ins: (runs fs1)
        then have i: "attempt (\<lambda>db. d1_insertTodo db (JStr (sanitizeTitle T)) (or_null D)
            (stored_status S)) (t, fs) = (Inr (changed 1), (?t, fs1))"
          by (simp add: d1_insertTodo_eq)
        have "\<forall>r\<in>set (rows t). todo_id r < todo_id ?new" using next_id_fresh by simp
        then have l: "d1_getLatestTodo ?t = (Inr [?new], ?t)" by (rule d1_getLatestTodo_new)
        show ?thesis
        proof (cases rule: attempt_cases [of d1_getLatestTodo ?t fs1])
          case (fails e fs2)
          then have "post_todos (faulty d1) request (t, fs) = (db_failure e, (?t, fs2))"
            unfolding req unf using i by simp
          then have a: "t' = ?t" and b: "out = db_failure e" using assms by simp_all
          have c: "fs = None # Some e # fs2" using ins(2) fails(2) by auto
          show ?thesis by (rule refetch_failed [OF True a b c])
        next
          case (runs fs2)
          then have "attempt d1_getLatestTodo (?t, fs1) = (Inr [?new], (?t, fs2))"
            using l by simp
          then have "post_todos (faulty d1) request (t, fs) =
              (Inr (json (TodoBody (Some ?new)) 201), (?t, fs2))"
            unfolding req unf using i by simp
          then show ?thesis using assms created [OF True] by simp
        qed
      qed
    qed
  qed
qed

lemma put_todo_rejected:
  assumes "\<not> (isValid (validateTodoId ident) \<and>
             (\<exists>T D S. request = Some (BodyObject T D S) \<and> truthy T \<and> sanitizeTitle T \<noteq> []))"
    and "put_todo L ident request db = (out, db')"
  shows "db' = db \<and> ((\<exists>e. out = Inl e) \<or> (\<exists>m. out = Inr (json (ErrorBody m) 400)))"
proof (cases "isValid (validateTodoId ident)")
  case False
  then show ?thesis using assms(2) by (auto simp: put_todo_def)
next
  case True
  show ?thesis
  proof (cases request)
    case None
    then show ?thesis using True assms(2) by (auto simp: put_todo_def)
  next
    case (Some b)
    show ?thesis
    proof (cases b)
      case BodyNull
      then show ?thesis using True Some assms(2) by (auto simp: put_todo_def)
    next
      case (BodyObject T D S)
      then have "\<not> truthy T \<or> sanitizeTitle T = []" using assms(1) True Some by simp
      then show ?thesis
      proof
        assume "\<not> truthy T"
        then show ?thesis using True Some BodyObject assms(2) by (auto simp: put_todo_def)
      next
        assume e: "sanitizeTitle T = []"
        show ?thesis
        proof (cases "truthy T")
          case False
          then show ?thesis using True Some BodyObject assms(2) by (auto simp: put_todo_def)
        next
          case tr: True
          then show ?thesis
            using True Some BodyObject assms(2) e by (auto simp: put_todo_def)
        qed
      qed
    qed
  qed
qed

lemma put_todo_faulty_cases:
  assumes "put_todo (faulty d1) ident request (t, fs) = (out, (t', fs'))"
  obtains (rejected) "t' = t"
      "(\<exists>e. out = Inl e) \<or> (\<exists>m. out = Inr (json (ErrorBody m) 400)) \<or>
       out = Inr (json (ErrorBody (JStr (lit ''Not found''))) 404)"
  | (exists_failed) e fs0 where "t' = t" "fs = Some e # fs0" "out = db_failure e"
  | (update_failed) e fs0 where "t' = t" "fs = None # Some e # fs0" "out = db_failure e"
  | (refetch_failed) i T D S e fs0 where "sanitizeTitle T \<noteq> []"
      "t' = t\<lparr>rows := map (\<lambda>r. if id_is i r
           then r\<lparr>title := JStr (sanitizeTitle T), description := or_null D,
                  status := stored_status S\<rparr> else r) (rows t)\<rparr>"
      "out = db_failure e" "fs = None # None # Some e # fs0"
  | (updated) i T D S r where "sanitizeTitle T \<noteq> []"
      "t' = t\<lparr>rows := map (\<lambda>r. if id_is i r
           then r\<lparr>title := JStr (sanitizeTitle T), description := or_null D,
                  status := stored_status S\<rparr> else r) (rows t)\<rparr>"
      "r \<in> set (rows t')" "out = Inr (json (TodoBody (Some r)) 200)"
proof (cases "isValid (validateTodoId ident) \<and>
             (\<exists>T D S. request = Some (BodyObject T D S) \<and> truthy T \<and> sanitizeTitle T \<noteq> [])")
  case False
  from put_todo_rejected [OF False assms]
  have "t' = t" "(\<exists>e. out = Inl e) \<or> (\<exists>m. out = Inr (json (ErrorBody m) 400))" by simp_all
  then show ?thesis using rejected by blast
next
  case True
  then obtain T D S where req: "request = Some (BodyObject T D S)" and tr: "truthy T"
    and st: "sanitizeTitle T \<noteq> []" by blast
  have v: "isValid (validateTodoId ident)" using True by simp
  define i where "i = parseInt ident"
  define upd :: "row \<Rightarrow> row" where "upd = (\<lambda>r. if id_is i r
           then r\<lparr>title := JStr (sanitizeTitle T), description := or_null D,
                  status := stored_status S\<rparr> else r)"
  define tu where "tu = t\<lparr>rows := map upd (rows t)\<rparr>"
  define found where "found = filter (id_is i) (rows t)"
  note unf = put_todo_reaches [OF v tr st, of "faulty d1" D S "(t, fs)", folded i_def]
  show ?thesis
  proof (cases rule: attempt_cases [of "\<lambda>db. d1_todoExists db i" t fs])
    case (fails e fs1)
    then have "put_todo (faulty d1) ident request (t, fs) = (db_failure e, (t, fs1))"
      unfolding req unf by simp
    then show ?thesis using assms exists_failed fails(2) by simp
  next
    case ex: (runs fs1)
    then have x: "attempt (\<lambda>db. d1_todoExists db i) (t, fs) =
        (Inr (Some (map (\<lambda>r. ()) found)), (t, fs1))"
      by (simp add: d1_todoExists_def found_def)
    show ?thesis
    proof (cases "found = []")
      case True
      then have "put_todo (faulty d1) ident request (t, fs) =
          (Inr (json (ErrorBody (JStr (lit ''Not found''))) 404), (t, fs1))"
        unfolding req unf using x by simp
      then show ?thesis using assms rejected by simp
    next
      case nonempty: False
      show ?thesis
      proof (cases "isDescriptionTooLong (or_null D) 1000")
        case True
        then have "put_todo (faulty d1) ident request (t, fs) =
            (Inr (json (ErrorBody (JStr (lit ''Description is too long (max 1000 characters)''))) 400),
             (t, fs1))"
          unfolding req unf using x nonempty by simp
        then show ?thesis using assms rejected by auto
      next
        case short: False
        show ?thesis
        proof (cases rule: attempt_cases
            [of "\<lambda>db. d1_updateTodo db i (JStr (sanitizeTitle T)) (or_null D) (stored_status S)"
              t fs1])
          case (fails e fs2)
          then have "put_todo (faulty d1) ident request (t, fs) = (db_failure e, (t, fs2))"
            unfolding req unf using x nonempty short by simp
          moreover have "fs = None # Some e # fs2" using ex(2) fails(2) by auto
          ultimately show ?thesis using assms update_failed by simp
        next
          case up: (runs fs2)
          then have u: "attempt (\<lambda>db. d1_updateTodo db i (JStr (sanitizeTitle T)) (or_null D)
              (stored_status S)) (t, fs1) = (Inr (changed (length found)), (tu, fs2))"
            by (simp add: d1_updateTodo_def tu_def upd_def found_def)
          have tu: "tu = t\<lparr>rows := map (\<lambda>r. if id_is i r
               then r\<lparr>title := JStr (sanitizeTitle T), description := or_null D,
                  status := stored_status S\<rparr> else r) (rows t)\<rparr>"
            by (simp add: tu_def upd_def)
          show ?thesis
          proof (cases rule: attempt_cases [of "\<lambda>db. d1_getTodoById db i" tu fs2])
            case (fails e fs3)
            then have "put_todo (faulty d1) ident request (t, fs) =
                (db_failure e, (tu, fs3))"
              unfolding req unf using x nonempty short u by simp
            then have a: "t' = tu" and b: "out = db_failure e" using assms by simp_all
            have c: "fs = None # None # Some e # fs3" using ex(2) up(2) fails(2) by auto
            show ?thesis using refetch_failed [OF st _ b c] a tu by blast
          next
            case (runs fs3)
            define res where "res = filter (id_is i) (rows tu)"
            have "res = map (\<lambda>r. r\<lparr>title := JStr (sanitizeTitle T), description := or_null D,
                  status := stored_status S\<rparr>) found"
              unfolding res_def tu found_def by (simp add: filter_map_update)
            then obtain r rs where rr: "res = r # rs" using nonempty by (cases found) auto
            then have "r \<in> set res" by simp
            then have mem: "r \<in> set (rows tu)" unfolding res_def by simp
            have "attempt (\<lambda>db. d1_getTodoById db i) (tu, fs2) = (Inr (r # rs), (tu, fs3))"
              using runs(1) rr by (simp add: d1_getTodoById_def res_def)
            then have "put_todo (faulty d1) ident request (t, fs) =
                (Inr (json (TodoBody (Some r)) 200), (tu, fs3))"
              unfolding req unf using x nonempty short u by simp
            then have a: "t' = tu" and b: "out = Inr (json (TodoBody (Some r)) 200)"
              using assms by simp_all
            have m: "r \<in> set (rows t')" using mem a by simp
            show ?thesis using updated [OF st _ m b] a tu by blast
          qed
        qed
      qed
    qed
  qed
qed

subsection \<open>What the hardened handlers do to the table\<close>

lemma status_simps [simp]: "http_status (json b k) = k" "body (json b k) = b"
  by (simp_all add: json_def)

lemma db_failure_status: "db_failure e = Inr resp \<Longrightarrow> http_status resp = 500"
  by (cases e) auto

lemma db_failure_ok [simp]: "outcome_ok (db_failure e)"
  by (cases e) simp_all

lemma get_todos_same:
  "get_todos (faulty d1) (t, fs) = (out, (t', fs')) \<Longrightarrow> t' = t"
  by (erule get_todos_faulty_cases) simp_all

lemma get_todo_same:
  "get_todo (faulty d1) ident (t, fs) = (out, (t', fs')) \<Longrightarrow> t' = t"
  by (erule get_todo_faulty_cases) simp_all

lemma delete_todo_same:
  assumes "delete_todo (faulty d1) ident (t, fs) = (Inr resp, (t', fs'))"
    and "http_status resp \<noteq> 200"
  shows "t' = t"
  using assms(1)
proof (cases rule: delete_todo_faulty_cases)
  case (deleted i)
  then show ?thesis using assms(2) by simp
qed simp_all

lemma post_todos_same:
  assumes "post_todos (faulty d1) request (t, fs) = (Inr resp, (t', fs'))"
    and "http_status resp = 400 \<or> http_status resp = 404 \<or>
         http_status resp = 500 \<and> (\<exists>e fs0. fs = Some e # fs0)"
  shows "t' = t"
  using assms(1)
proof (cases rule: post_todos_faulty_cases)
  case (refetch_failed T D S e fs0)
  then show ?thesis using assms(2) db_failure_status [of e resp] by auto
next
  case (created T D S)
  then show ?thesis using assms(2) by auto
qed simp_all

lemma put_todo_same:
  assumes "put_todo (faulty d1) ident request (t, fs) = (Inr resp, (t', fs'))"
    and "http_status resp = 400 \<or> http_status resp = 404 \<or>
         http_status resp = 500 \<and> (\<exists>e fs0. fs = Some e # fs0 \<or> fs = None # Some e # fs0)"
  shows "t' = t"
  using assms(1)
proof (cases rule: put_todo_faulty_cases)
  case (refetch_failed i T D S e fs0)
  then show ?thesis using assms(2) db_failure_status [of e resp] by auto
next
  case (updated i T D S r)
  then show ?thesis using assms(2) by auto
qed simp_all

lemma isValidStatus_stored: "isValidStatus (stored_status S)"
  using isValidStatus_default by (simp add: stored_status_def)

lemma row_ok_new:
  "sanitizeTitle T \<noteq> [] \<Longrightarrow>
     row_ok \<lparr>todo_id = i, title = JStr (sanitizeTitle T), description = de,
             status = stored_status S\<rparr>"
  by (simp add: row_ok_def sanitizeTitle_normalized isValidStatus_stored)

lemma row_ok_update:
  "sanitizeTitle T \<noteq> [] \<Longrightarrow>
     row_ok (r\<lparr>title := JStr (sanitizeTitle T), description := de, status := stored_status S\<rparr>)"
  by (simp add: row_ok_def sanitizeTitle_normalized isValidStatus_stored)

lemma get_todos_inv:
  assumes "todo_inv t" and "get_todos (faulty d1) (t, fs) = (out, (t', fs'))"
  shows "todo_inv t' \<and> outcome_ok out"
  using assms(2)
proof (cases rule: get_todos_faulty_cases)
  case (failed e)
  then show ?thesis using assms(1) by simp
next
  case listed
  then show ?thesis using assms(1) by (simp add: todo_inv_def)
qed

lemma get_todo_inv:
  assumes "todo_inv t" and "get_todo (faulty d1) ident (t, fs) = (out, (t', fs'))"
  shows "todo_inv t' \<and> outcome_ok out"
  using assms(2)
proof (cases rule: get_todo_faulty_cases)
  case (found r)
  then show ?thesis using assms(1) by (simp add: todo_inv_def)
qed (use assms(1) in simp_all)

lemma delete_todo_inv:
  assumes "todo_inv t" and "delete_todo (faulty d1) ident (t, fs) = (out, (t', fs'))"
  shows "todo_inv t' \<and> outcome_ok out"
  using assms(2)
proof (cases rule: delete_todo_faulty_cases)
  case (deleted i)
  then show ?thesis using assms(1) by (simp add: todo_inv_def)
qed (use assms(1) in simp_all)

lemma post_todos_inv:
  assumes "todo_inv t" and "post_todos (faulty d1) request (t, fs) = (out, (t', fs'))"
  shows "todo_inv t' \<and> outcome_ok out"
  using assms(2)
proof (cases rule: post_todos_faulty_cases)
  case rejected
  then show ?thesis using assms(1) by auto
next
  case (insert_failed e fs0)
  then show ?thesis using assms(1) by simp
next
  case (refetch_failed T D S e fs0)
  then have "sanitizeTitle T \<noteq> []" by (simp add: create_reaches_db_def)
  then show ?thesis using refetch_failed assms(1) by (simp add: todo_inv_def row_ok_new)
next
  case (created T D S)
  then have "sanitizeTitle T \<noteq> []" by (simp add: create_reaches_db_def)
  then show ?thesis using created assms(1) by (simp add: todo_inv_def row_ok_new)
qed

lemma update_inv:
  assumes "todo_inv t" and "sanitizeTitle T \<noteq> []"
  shows "todo_inv (t\<lparr>rows := map (\<lambda>r. if id_is i r
           then r\<lparr>title := JStr (sanitizeTitle T), description := de,
                  status := stored_status S\<rparr> else r) (rows t)\<rparr>)"
  using assms by (auto simp: todo_inv_def row_ok_update)

lemma put_todo_inv:
  assumes "todo_inv t" and "put_todo (faulty d1) ident request (t, fs) = (out, (t', fs'))"
  shows "todo_inv t' \<and> outcome_ok out"
  using assms(2)
proof (cases rule: put_todo_faulty_cases)
  case rejected
  then show ?thesis using assms(1) by auto
next
  case (exists_failed e fs0)
  then show ?thesis using assms(1) by simp
next
  case (update_failed e fs0)
  then show ?thesis using assms(1) by simp
next
  case (refetch_failed i T D S e fs0)
  then show ?thesis using update_inv [OF assms(1) refetch_failed(1)] by simp
next
  case (updated i T D S r)
  have "todo_inv t'" unfolding updated(2) by (rule update_inv [OF assms(1) updated(1)])
  then show ?thesis using updated(3,4) by (simp add: todo_inv_def)
qed

section \<open>The claims\<close>

subsection \<open>C1: invalid ids\<close>

text \<open>
  C1, as amended. \<open>validateTodoId\<close> accepts an id exactly when \<open>parseInt\<close> gives a
  number greater than zero: a positive integer, or \<open>Infinity\<close>, which is what a numeral
  beyond the range of a double parses to. For every id that \<open>parseInt\<close> turns into NaN,
  zero, a negative integer or \<open>-Infinity\<close>, the hardened get, update and delete handlers
  answer 400 with \<open>{error: "Invalid ID"}\<close> and leave the database alone, whatever the
  layer; the simple update answers 400 with \<open>"Invalid id"\<close>. The simple get and delete
  answer 400 when \<open>parseInt\<close> gives NaN. The lemmas \<open>parseInt_not_numeric\<close>,
  \<open>parseInt_decimal\<close> and \<open>parseInt_minus_decimal\<close> say which strings those are: one
  that starts with neither blank, sign nor digit is NaN, the numeral of zero is zero, a
  minus sign before a numeral is never above zero.
\<close>

theorem C1_invalid_id:
  "(isValid (validateTodoId ident) \<longleftrightarrow>
      (\<exists>n. parseInt ident = Finite n \<and> 0 < n) \<or> parseInt ident = Infinity) \<and>
   ((parseInt ident = NaN \<or> (\<exists>n. parseInt ident = Finite n \<and> n \<le> 0) \<or>
     parseInt ident = NegInfinity) \<longrightarrow>
      get_todo L ident db = (Inr (json (ErrorBody (JStr (lit ''Invalid ID''))) 400), db) \<and>
      put_todo L ident request db = (Inr (json (ErrorBody (JStr (lit ''Invalid ID''))) 400), db) \<and>
      delete_todo L ident db = (Inr (json (ErrorBody (JStr (lit ''Invalid ID''))) 400), db) \<and>
      simple_put_todo L ident request db =
        (Inr (json (ErrorBody (JStr (lit ''Invalid id''))) 400), db)) \<and>
   (parseInt ident = NaN \<longrightarrow>
      simple_get_todo L ident db = (Inr (json (ErrorBody (JStr (lit ''Invalid ID''))) 400), db) \<and>
      simple_delete_todo L ident db =
        (Inr (json (ErrorBody (JStr (lit ''Invalid ID''))) 400), db))"
proof -
  have a: "isValid (validateTodoId ident) \<longleftrightarrow>
      (\<exists>n. parseInt ident = Finite n \<and> 0 < n) \<or> parseInt ident = Infinity"
    by (rule validateTodoId_iff)
  have b: "get_todo L ident db = (Inr (json (ErrorBody (JStr (lit ''Invalid ID''))) 400), db) \<and>
      put_todo L ident request db = (Inr (json (ErrorBody (JStr (lit ''Invalid ID''))) 400), db) \<and>
      delete_todo L ident db = (Inr (json (ErrorBody (JStr (lit ''Invalid ID''))) 400), db) \<and>
      simple_put_todo L ident request db =
        (Inr (json (ErrorBody (JStr (lit ''Invalid id''))) 400), db)"
    if "parseInt ident = NaN \<or> (\<exists>n. parseInt ident = Finite n \<and> n \<le> 0) \<or>
        parseInt ident = NegInfinity"
  proof -
    have bad: "isNaN (parseInt ident) \<or> le_zero (parseInt ident)" using that by auto
    then have nv: "\<not> isValid (validateTodoId ident)" by (simp add: validateTodoId_invalid_iff)
    have "simple_put_todo L ident request db =
        (Inr (json (ErrorBody (JStr (lit ''Invalid id''))) 400), db)"
      using bad by (simp add: simple_put_todo_def)
    then show ?thesis
      using nv validateTodoId_invalid [OF nv]
      by (simp add: get_todo_def put_todo_def delete_todo_def)
  qed
  have c: "simple_get_todo L ident db =
        (Inr (json (ErrorBody (JStr (lit ''Invalid ID''))) 400), db) \<and>
      simple_delete_todo L ident db =
        (Inr (json (ErrorBody (JStr (lit ''Invalid ID''))) 400), db)"
    if "parseInt ident = NaN"
    using that by (simp add: simple_get_todo_def simple_delete_todo_def)
  show ?thesis using a b c by blast
qed

text \<open>The theorem at the ids \<open>"7"\<close>, \<open>"-5"\<close>, \<open>"0"\<close> and \<open>"abc"\<close>.\<close>

theorem C1_invalid_id_witness:
  "isValid (validateTodoId (lit ''7'')) \<and>
   get_todo d1 (lit ''-5'') \<lparr>rows = [], seq = 0\<rparr> =
     (Inr (json (ErrorBody (JStr (lit ''Invalid ID''))) 400), \<lparr>rows = [], seq = 0\<rparr>) \<and>
   delete_todo d1 (lit ''0'') \<lparr>rows = [], seq = 0\<rparr> =
     (Inr (json (ErrorBody (JStr (lit ''Invalid ID''))) 400), \<lparr>rows = [], seq = 0\<rparr>) \<and>
   simple_delete_todo d1 (lit ''abc'') \<lparr>rows = [], seq = 0\<rparr> =
     (Inr (json (ErrorBody (JStr (lit ''Invalid ID''))) 400), \<lparr>rows = [], seq = 0\<rparr>)"
proof -
  have p7: "parseInt (lit ''7'') = Finite 7" by code_simp
  have p5: "parseInt (lit ''-5'') = Finite (- 5)" by code_simp
  have p0: "parseInt (lit ''0'') = Finite 0" by code_simp
  have pa: "parseInt (lit ''abc'') = NaN" by code_simp
  show ?thesis
    using C1_invalid_id [of "lit ''7''"] C1_invalid_id [of "lit ''-5''" d1 "\<lparr>rows = [], seq = 0\<rparr>"]
      C1_invalid_id [of "lit ''0''" d1 "\<lparr>rows = [], seq = 0\<rparr>"]
      C1_invalid_id [of "lit ''abc''" d1 "\<lparr>rows = [], seq = 0\<rparr>"] p7 p5 p0 pa
    by simp
qed

text \<open>
  C1, as stated, fails on the simple handlers: they test only \<open>isNaN\<close>, so the ids
  \<open>"0"\<close> and \<open>"-1"\<close> reach the database and come back as 404, not 400.
\<close>

theorem C1_counterexample:
  "fst (simple_get_todo d1 (lit ''0'') \<lparr>rows = [], seq = 0\<rparr>) =
     Inr (json (ErrorBody (JStr (lit ''Not found''))) 404) \<and>
   fst (simple_delete_todo d1 (lit ''-1'') \<lparr>rows = [], seq = 0\<rparr>) =
     Inr (json (ErrorBody (JStr (lit ''Not found''))) 404)"
  by code_simp

subsection \<open>C2: the invariant of the stored todos\<close>

text \<open>
  C2, as amended. On the table, with a layer that may fail at any call, every hardened
  handler (list, get, create, update, delete) keeps the invariant that each stored row has
  a normalized title (not empty, no white space at either end, every white-space character
  a single space) and one of the four statuses; and every row that a response carries has
  them too. The empty table satisfies the invariant.
\<close>

theorem C2_invariant:
  assumes "todo_inv t"
  shows "(get_todos (faulty d1) (t, fs) = (out, (t', fs')) \<longrightarrow> todo_inv t' \<and> outcome_ok out) \<and>
    (get_todo (faulty d1) ident (t, fs) = (out, (t', fs')) \<longrightarrow> todo_inv t' \<and> outcome_ok out) \<and>
    (post_todos (faulty d1) request (t, fs) = (out, (t', fs')) \<longrightarrow>
       todo_inv t' \<and> outcome_ok out) \<and>
    (put_todo (faulty d1) ident request (t, fs) = (out, (t', fs')) \<longrightarrow>
       todo_inv t' \<and> outcome_ok out) \<and>
    (delete_todo (faulty d1) ident (t, fs) = (out, (t', fs')) \<longrightarrow>
       todo_inv t' \<and> outcome_ok out)"
  using get_todos_inv [OF assms, of fs out t' fs'] get_todo_inv [OF assms, of ident fs out t' fs']
    post_todos_inv [OF assms, of request fs out t' fs']
    put_todo_inv [OF assms, of ident request fs out t' fs']
    delete_todo_inv [OF assms, of ident fs out t' fs']
  by blast

text \<open>
  The theorem for a create with the title \<open>" x   y "\<close> and the status \<open>"done"\<close> on a
  table that satisfies the invariant.
\<close>

theorem C2_invariant_witness:
  "todo_inv \<lparr>rows = [\<lparr>todo_id = 1, title = JStr (lit ''Buy milk''), description = JNull,
                 status = JStr (lit ''incomplete'')\<rparr>], seq = 1\<rparr> \<and>
   todo_inv (fst (snd (post_todos (faulty d1)
      (Some (BodyObject (JStr (lit '' x   y '')) JUndefined (JStr (lit ''done''))))
      (\<lparr>rows = [\<lparr>todo_id = 1, title = JStr (lit ''Buy milk''), description = JNull,
                 status = JStr (lit ''incomplete'')\<rparr>], seq = 1\<rparr>, []))))"
proof -
  let ?t1 = "\<lparr>rows = [\<lparr>todo_id = 1, title = JStr (lit ''Buy milk''), description = JNull,
                 status = JStr (lit ''incomplete'')\<rparr>], seq = 1\<rparr>"
  let ?post = "post_todos (faulty d1)
      (Some (BodyObject (JStr (lit '' x   y '')) JUndefined (JStr (lit ''done'')))) (?t1, [])"
  have i: "todo_inv ?t1" by code_simp
  obtain out t' fs' where a: "?post = (out, (t', fs'))" by (cases ?post) auto
  have "todo_inv t'"
    using C2_invariant [OF i, where request = "Some (BodyObject (JStr (lit '' x   y ''))
        JUndefined (JStr (lit ''done'')))" and fs = "[]" and out = out and t' = t' and fs' = fs'] a
    by simp
  then show ?thesis using i a by simp
qed

text \<open>
  C2, as stated, fails on the simple create handler, which stores the title and a present
  status as they are sent: the stored row has neither a normalized title nor a status of
  the set.
\<close>

theorem C2_counterexample:
  "simple_post_todos d1 (Some (BodyObject (JStr (lit ''  a  b '')) JNull (JStr (lit ''bogus''))))
     \<lparr>rows = [], seq = 0\<rparr> =
   (Inr (json (TodoBody (Some \<lparr>todo_id = 1, title = JStr (lit ''  a  b ''), description = JNull,
                                status = JStr (lit ''bogus'')\<rparr>)) 201),
    \<lparr>rows = [\<lparr>todo_id = 1, title = JStr (lit ''  a  b ''), description = JNull,
               status = JStr (lit ''bogus'')\<rparr>], seq = 1\<rparr>) \<and>
   \<not> normalized (lit ''  a  b '') \<and> \<not> isValidStatus (JStr (lit ''bogus'')) \<and>
   \<not> todo_inv \<lparr>rows = [\<lparr>todo_id = 1, title = JStr (lit ''  a  b ''), description = JNull,
               status = JStr (lit ''bogus'')\<rparr>], seq = 1\<rparr>"
  by code_simp

subsection \<open>C3: create, then fetch\<close>

text \<open>
  C3, as amended. On the table, when the id that the table assigns next is below
  \<open>2 ^ 53\<close> and the hardened create handler accepts a request with title \<open>T\<close>,
  description \<open>D\<close> and status \<open>S\<close>, that is, answers 201, its body is a row \<open>r\<close> with
  that id, and the hardened get handler, asked for the decimal numeral of the id of \<open>r\<close>,
  answers 200 with that same row: its title is the sanitized \<open>T\<close>, its description is
  \<open>D\<close>, or null when \<open>D\<close> is absent, and its status is \<open>S\<close> when \<open>S\<close> is one of the
  four values and \<open>"incomplete"\<close> otherwise.
\<close>

theorem C3_create_then_get:
  assumes "post_todos d1 (Some (BodyObject T D S)) t = (Inr resp, t')"
    and "http_status resp = 201"
    and "next_id t < 2 ^ 53"
  shows "\<exists>r. body resp = TodoBody (Some r) \<and> todo_id r = next_id t \<and>
    get_todo d1 (decimal (nat (todo_id r))) t' = (Inr (json (TodoBody (Some r)) 200), t') \<and>
    title r = JStr (sanitizeTitle T) \<and>
    description r = (if D = JUndefined then JNull else D) \<and>
    status r = (if isValidStatus S then S else JStr (lit ''incomplete''))"
proof -
  let ?new = "\<lparr>todo_id = next_id t, title = JStr (sanitizeTitle T),
                description = or_null D, status = stored_status S\<rparr>"
  have v: "create_reaches_db T D" using assms(1,2) by (rule post_todos_201)
  have e: "resp = json (TodoBody (Some ?new)) 201"
    and t': "t' = \<lparr>rows = rows t @ [?new], seq = nat (next_id t)\<rparr>"
    using assms(1) post_todos_d1 [OF v, of S t] by simp_all
  have "\<forall>r\<in>set (rows t). todo_id r < todo_id ?new" using next_id_fresh by simp
  moreover have "0 < todo_id ?new" using next_id_pos by simp
  moreover have "todo_id ?new < 2 ^ 53" using assms(3) by simp
  ultimately have g: "get_todo d1 (decimal (nat (todo_id ?new))) t' =
      (Inr (json (TodoBody (Some ?new)) 200), t')"
    unfolding t' by (rule get_todo_d1_new)
  have d: "or_null D = (if D = JUndefined then JNull else D)" by (cases D) simp_all
  have "body resp = TodoBody (Some ?new)" using e by (simp add: json_def)
  then show ?thesis
    using g d by (intro exI [of _ ?new]) (simp add: stored_status_def DEFAULT_STATUS_def)
qed

text \<open>
  The theorem at the request \<open>{"title": "  Buy   milk  "}\<close> on the empty table.
\<close>

theorem C3_create_then_get_witness:
  "get_todo d1 (lit ''1'')
     \<lparr>rows = [\<lparr>todo_id = 1, title = JStr (lit ''Buy milk''), description = JNull,
                status = JStr (lit ''incomplete'')\<rparr>], seq = 1\<rparr> =
   (Inr (json (TodoBody (Some \<lparr>todo_id = 1, title = JStr (lit ''Buy milk''),
                                description = JNull, status = JStr (lit ''incomplete'')\<rparr>)) 200),
    \<lparr>rows = [\<lparr>todo_id = 1, title = JStr (lit ''Buy milk''), description = JNull,
               status = JStr (lit ''incomplete'')\<rparr>], seq = 1\<rparr>)"
proof -
  let ?r = "\<lparr>todo_id = 1, title = JStr (lit ''Buy milk''), description = JNull,
             status = JStr (lit ''incomplete'')\<rparr>"
  let ?t = "\<lparr>rows = [?r], seq = 1\<rparr>"
  have p: "post_todos d1 (Some (BodyObject (JStr (lit ''  Buy   milk  '')) JUndefined JUndefined))
      \<lparr>rows = [], seq = 0\<rparr> = (Inr (json (TodoBody (Some ?r)) 201), ?t)"
    by code_simp
  have s: "http_status (json (TodoBody (Some ?r)) 201) = 201" by (simp add: json_def)
  have n: "next_id \<lparr>rows = [], seq = 0\<rparr> < 2 ^ 53" by (simp add: next_id_def)
  have d: "decimal (nat 1) = lit ''1''" by code_simp
  from C3_create_then_get [OF p s n]
  obtain r where "body (json (TodoBody (Some ?r)) 201) = TodoBody (Some r)"
    and g: "get_todo d1 (decimal (nat (todo_id r))) ?t = (Inr (json (TodoBody (Some r)) 200), ?t)"
    by auto
  then have "r = ?r" by (simp add: json_def)
  then show ?thesis using g d by simp
qed

text \<open>
  C3, as stated, fails where ids leave the integers that a double holds exactly. On a
  table whose counter stands at \<open>2 ^ 53\<close> the create handler answers 201 with a row of
  id \<open>2 ^ 53 + 1\<close>. \<open>parseInt\<close> rounds the numeral of that id to \<open>2 ^ 53\<close>, which is also
  the number that JavaScript reads the id as, and no row has that id: the get handler
  answers 404 for either numeral.
\<close>

theorem C3_counterexample:
  "post_todos d1 (Some (BodyObject (JStr (lit ''a'')) JUndefined JUndefined))
     \<lparr>rows = [], seq = 9007199254740992\<rparr> =
   (Inr (json (TodoBody (Some \<lparr>todo_id = 9007199254740993, title = JStr (lit ''a''),
                                description = JNull, status = JStr (lit ''incomplete'')\<rparr>)) 201),
    \<lparr>rows = [\<lparr>todo_id = 9007199254740993, title = JStr (lit ''a''), description = JNull,
               status = JStr (lit ''incomplete'')\<rparr>], seq = 9007199254740993\<rparr>) \<and>
   parseInt (lit ''9007199254740993'') = Finite 9007199254740992 \<and>
   fst (get_todo d1 (lit ''9007199254740993'')
     \<lparr>rows = [\<lparr>todo_id = 9007199254740993, title = JStr (lit ''a''), description = JNull,
               status = JStr (lit ''incomplete'')\<rparr>], seq = 9007199254740993\<rparr>) =
     Inr (json (ErrorBody (JStr (lit ''Not found''))) 404) \<and>
   fst (get_todo d1 (lit ''9007199254740992'')
     \<lparr>rows = [\<lparr>todo_id = 9007199254740993, title = JStr (lit ''a''), description = JNull,
               status = JStr (lit ''incomplete'')\<rparr>], seq = 9007199254740993\<rparr>) =
     Inr (json (ErrorBody (JStr (lit ''Not found''))) 404)"
proof -
  have r: "create_reaches_db (JStr (lit ''a'')) JUndefined" by code_simp
  have s: "sanitizeTitle (JStr (lit ''a'')) = lit ''a''" by code_simp
  have st: "stored_status JUndefined = JStr (lit ''incomplete'')" by code_simp
  have n: "next_id \<lparr>rows = [], seq = 9007199254740992\<rparr> = 9007199254740993"
    by (simp add: next_id_def)
  have p3: "parseInt (lit ''9007199254740993'') = Finite 9007199254740992" by code_simp
  have p2: "parseInt (lit ''9007199254740992'') = Finite 9007199254740992" by code_simp
  have v3: "isValid (validateTodoId (lit ''9007199254740993''))"
    using p3 by (simp add: validateTodoId_iff)
  have v2: "isValid (validateTodoId (lit ''9007199254740992''))"
    using p2 by (simp add: validateTodoId_iff)
  have post: "post_todos d1 (Some (BodyObject (JStr (lit ''a'')) JUndefined JUndefined))
     \<lparr>rows = [], seq = 9007199254740992\<rparr> =
   (Inr (json (TodoBody (Some \<lparr>todo_id = 9007199254740993, title = JStr (lit ''a''),
                                description = JNull, status = JStr (lit ''incomplete'')\<rparr>)) 201),
    \<lparr>rows = [\<lparr>todo_id = 9007199254740993, title = JStr (lit ''a''), description = JNull,
               status = JStr (lit ''incomplete'')\<rparr>], seq = 9007199254740993\<rparr>)"
    using post_todos_d1 [OF r, of JUndefined "\<lparr>rows = [], seq = 9007199254740992\<rparr>"]
    unfolding s st n by simp
  have g3: "fst (get_todo d1 (lit ''9007199254740993'')
     \<lparr>rows = [\<lparr>todo_id = 9007199254740993, title = JStr (lit ''a''), description = JNull,
               status = JStr (lit ''incomplete'')\<rparr>], seq = 9007199254740993\<rparr>) =
     Inr (json (ErrorBody (JStr (lit ''Not found''))) 404)"
    using valid_id_simps [OF v3] by (simp add: p3 get_todo_def d1_getTodoById_def)
  have g2: "fst (get_todo d1 (lit ''9007199254740992'')
     \<lparr>rows = [\<lparr>todo_id = 9007199254740993, title = JStr (lit ''a''), description = JNull,
               status = JStr (lit ''incomplete'')\<rparr>], seq = 9007199254740993\<rparr>) =
     Inr (json (ErrorBody (JStr (lit ''Not found''))) 404)"
    using valid_id_simps [OF v2] by (simp add: p2 get_todo_def d1_getTodoById_def)
  show ?thesis using post p3 g3 g2 by (intro conjI)
qed

subsection \<open>C4: failures of the persistence layer\<close>

text \<open>
  C4, as amended. In the hardened handlers, and in the simple list handler, a rejection
  of the layer never leaves the handler as such: the outcome is never \<open>Rejected\<close>.
  Whichever call of the layer fails first (the one call of list, get and delete; the
  insert or the re-fetch of create; the existence check, the update or the re-fetch of
  update), the outcome is that of the \<open>catch\<close> block, and the database returned is the
  one the failing call left. For a failure that is neither \<open>undefined\<close> nor \<open>null\<close>
  the \<open>catch\<close> block answers 500 with the body \<open>{error: err.message || "DB failure"}\<close>:
  the message of the failure when it is truthy, else \<open>"DB failure"\<close>. For a failure that
  is \<open>undefined\<close> or \<open>null\<close> the \<open>catch\<close> block throws a TypeError, which leaves the
  handler uncaught.
\<close>

theorem C4_failures_caught:
  "(fst (get_todos L db) \<noteq> Inl (Rejected e) \<and>
    fst (get_todo L ident db) \<noteq> Inl (Rejected e) \<and>
    fst (post_todos L request db) \<noteq> Inl (Rejected e) \<and>
    fst (put_todo L ident request db) \<noteq> Inl (Rejected e) \<and>
    fst (delete_todo L ident db) \<noteq> Inl (Rejected e) \<and>
    fst (simple_get_todos L db) \<noteq> Inl (Rejected e)) \<and>
   db_failure (DbError m) =
     Inr (json (ErrorBody (if truthy m then m else JStr (lit ''DB failure''))) 500) \<and>
   db_failure Nullish = Inl TypeError \<and>
   (getAllTodos L db = (Inl err, db1) \<longrightarrow>
      get_todos L db = (db_failure err, db1) \<and>
      simple_get_todos L db = (db_failure err, db1)) \<and>
   (isValid (validateTodoId ident) \<longrightarrow>
      (getTodoById L db (parseInt ident) = (Inl err, db1) \<longrightarrow>
         get_todo L ident db = (db_failure err, db1)) \<and>
      (deleteTodo L db (parseInt ident) = (Inl err, db1) \<longrightarrow>
         delete_todo L ident db = (db_failure err, db1)) \<and>
      (truthy T \<and> sanitizeTitle T \<noteq> [] \<longrightarrow>
         (todoExists L db (parseInt ident) = (Inl err, db1) \<longrightarrow>
            put_todo L ident (Some (BodyObject T D S)) db = (db_failure err, db1)) \<and>
         (todoExists L db (parseInt ident) = (Inr (Some (x # xs)), db2) \<and>
          \<not> isDescriptionTooLong (or_null D) 1000 \<longrightarrow>
            (updateTodo L db2 (parseInt ident) (JStr (sanitizeTitle T)) (or_null D)
               (stored_status S) = (Inl err, db1) \<longrightarrow>
               put_todo L ident (Some (BodyObject T D S)) db = (db_failure err, db1)) \<and>
            (updateTodo L db2 (parseInt ident) (JStr (sanitizeTitle T)) (or_null D)
               (stored_status S) = (Inr res, db3) \<and>
             getTodoById L db3 (parseInt ident) = (Inl err, db1) \<longrightarrow>
               put_todo L ident (Some (BodyObject T D S)) db = (db_failure err, db1))))) \<and>
   (create_reaches_db T D \<longrightarrow>
      (insertTodo L db (JStr (sanitizeTitle T)) (or_null D) (stored_status S) = (Inl err, db1) \<longrightarrow>
         post_todos L (Some (BodyObject T D S)) db = (db_failure err, db1)) \<and>
      (insertTodo L db (JStr (sanitizeTitle T)) (or_null D) (stored_status S) = (Inr res, db3) \<and>
       getLatestTodo L db3 = (Inl err, db1) \<longrightarrow>
         post_todos L (Some (BodyObject T D S)) db = (db_failure err, db1)))"
proof -
  have a: "fst (get_todos L db) \<noteq> Inl (Rejected e) \<and>
    fst (get_todo L ident db) \<noteq> Inl (Rejected e) \<and>
    fst (post_todos L request db) \<noteq> Inl (Rejected e) \<and>
    fst (put_todo L ident request db) \<noteq> Inl (Rejected e) \<and>
    fst (delete_todo L ident db) \<noteq> Inl (Rejected e) \<and>
    fst (simple_get_todos L db) \<noteq> Inl (Rejected e)"
    by (simp add: get_todos_caught get_todo_caught post_todos_caught put_todo_caught
      delete_todo_caught simple_get_todos_caught)
  have b: "db_failure (DbError m) =
     Inr (json (ErrorBody (if truthy m then m else JStr (lit ''DB failure''))) 500) \<and>
     db_failure Nullish = Inl TypeError"
    by (simp add: db_failure_def)
  have c: "getAllTodos L db = (Inl err, db1) \<longrightarrow>
      get_todos L db = (db_failure err, db1) \<and>
      simple_get_todos L db = (db_failure err, db1)"
    by (simp add: get_todos_500 simple_get_todos_500)
  have d: "isValid (validateTodoId ident) \<longrightarrow>
      (getTodoById L db (parseInt ident) = (Inl err, db1) \<longrightarrow>
         get_todo L ident db = (db_failure err, db1)) \<and>
      (deleteTodo L db (parseInt ident) = (Inl err, db1) \<longrightarrow>
         delete_todo L ident db = (db_failure err, db1))"
    by (simp add: get_todo_500 delete_todo_500)
  have f: "isValid (validateTodoId ident) \<longrightarrow> truthy T \<and> sanitizeTitle T \<noteq> [] \<longrightarrow>
         (todoExists L db (parseInt ident) = (Inl err, db1) \<longrightarrow>
            put_todo L ident (Some (BodyObject T D S)) db = (db_failure err, db1)) \<and>
         (todoExists L db (parseInt ident) = (Inr (Some (x # xs)), db2) \<and>
          \<not> isDescriptionTooLong (or_null D) 1000 \<longrightarrow>
            (updateTodo L db2 (parseInt ident) (JStr (sanitizeTitle T)) (or_null D)
               (stored_status S) = (Inl err, db1) \<longrightarrow>
               put_todo L ident (Some (BodyObject T D S)) db = (db_failure err, db1)) \<and>
            (updateTodo L db2 (parseInt ident) (JStr (sanitizeTitle T)) (or_null D)
               (stored_status S) = (Inr res, db3) \<and>
             getTodoById L db3 (parseInt ident) = (Inl err, db1) \<longrightarrow>
               put_todo L ident (Some (BodyObject T D S)) db = (db_failure err, db1)))"
    by (auto simp: put_todo_500)
  have g: "create_reaches_db T D \<longrightarrow>
      (insertTodo L db (JStr (sanitizeTitle T)) (or_null D) (stored_status S) = (Inl err, db1) \<longrightarrow>
         post_todos L (Some (BodyObject T D S)) db = (db_failure err, db1)) \<and>
      (insertTodo L db (JStr (sanitizeTitle T)) (or_null D) (stored_status S) = (Inr res, db3) \<and>
       getLatestTodo L db3 = (Inl err, db1) \<longrightarrow>
         post_todos L (Some (BodyObject T D S)) db = (db_failure err, db1))"
    by (auto simp: post_todos_500)
  from a b c d f g show ?thesis by blast
qed

text \<open>
  The theorem for a get whose fetch fails with the message \<open>"DB error"\<close>, and for a create
  whose insert succeeds and whose re-fetch fails with no message.
\<close>

theorem C4_failures_caught_witness:
  "get_todo (faulty d1) (lit ''1'')
      (\<lparr>rows = [], seq = 0\<rparr>, [Some (DbError (JStr (lit ''DB error'')))]) =
     (Inr (json (ErrorBody (JStr (lit ''DB error''))) 500), (\<lparr>rows = [], seq = 0\<rparr>, [])) \<and>
   post_todos (faulty d1) (Some (BodyObject (JStr (lit ''t'')) JUndefined JUndefined))
      (\<lparr>rows = [], seq = 0\<rparr>, [None, Some (DbError JUndefined)]) =
     (Inr (json (ErrorBody (JStr (lit ''DB failure''))) 500),
      (\<lparr>rows = [\<lparr>todo_id = 1, title = JStr (lit ''t''), description = JNull,
                  status = JStr (lit ''incomplete'')\<rparr>], seq = 1\<rparr>, []))"
proof -
  let ?t0 = "\<lparr>rows = [], seq = 0\<rparr>"
  let ?t1 = "\<lparr>rows = [\<lparr>todo_id = 1, title = JStr (lit ''t''), description = JNull,
                  status = JStr (lit ''incomplete'')\<rparr>], seq = 1\<rparr>"
  let ?e = "DbError (JStr (lit ''DB error''))"
  let ?u = "DbError JUndefined"
  have p: "parseInt (lit ''1'') = Finite 1" by code_simp
  have v: "isValid (validateTodoId (lit ''1''))" using p by (simp add: validateTodoId_iff)
  have g: "getTodoById (faulty d1) (?t0, [Some ?e]) (Finite 1) = (Inl ?e, (?t0, []))"
    by (simp add: faulty_def)
  have m: "truthy (JStr (lit ''DB error''))" by (simp add: lit_def)
  have 1: "get_todo (faulty d1) (lit ''1'') (?t0, [Some ?e]) =
     (Inr (json (ErrorBody (JStr (lit ''DB error''))) 500), (?t0, []))"
    using C4_failures_caught [where L = "faulty d1" and db = "(?t0, [Some ?e])"
        and ident = "lit ''1''" and err = ?e and ?db1.0 = "(?t0, [])"
        and m = "JStr (lit ''DB error'')"] p v g m
    by simp
  have r: "create_reaches_db (JStr (lit ''t'')) JUndefined" by code_simp
  have s: "sanitizeTitle (JStr (lit ''t'')) = lit ''t''" by code_simp
  have st: "stored_status JUndefined = JStr (lit ''incomplete'')"
    by (simp add: stored_status_def DEFAULT_STATUS_def)
  have i: "insertTodo (faulty d1) (?t0, [None, Some ?u]) (JStr (lit ''t'')) JNull
             (JStr (lit ''incomplete'')) = (Inr (changed 1), (?t1, [Some ?u]))"
    by (simp add: faulty_def d1_def d1_insertTodo_def next_id_def)
  have l: "getLatestTodo (faulty d1) (?t1, [Some ?u]) = (Inl ?u, (?t1, []))"
    by (simp add: faulty_def)
  have 2: "post_todos (faulty d1) (Some (BodyObject (JStr (lit ''t'')) JUndefined JUndefined))
      (?t0, [None, Some ?u]) =
     (Inr (json (ErrorBody (JStr (lit ''DB failure''))) 500), (?t1, []))"
    using C4_failures_caught [where L = "faulty d1" and db = "(?t0, [None, Some ?u])"
        and T = "JStr (lit ''t'')" and D = JUndefined and S = JUndefined and err = ?u
        and ?db1.0 = "(?t1, [])" and ?db3.0 = "(?t1, [Some ?u])"
        and res = "changed 1" and m = JUndefined] r s st i l
    by simp
  show ?thesis using 1 2 by simp
qed

text \<open>
  C4, as stated, fails in two ways. The simple handlers other than list await the layer
  outside any \<open>try\<close>, so the rejection of \<open>getTodoById\<close> escapes the simple get handler.
  And in the hardened handlers a rejection with \<open>undefined\<close> makes the \<open>catch\<close> block
  throw a TypeError when it reads \<open>err.message\<close>: there is no answer 500.
\<close>

theorem C4_counterexample:
  "simple_get_todo (faulty d1) (lit ''1'')
      (\<lparr>rows = [], seq = 0\<rparr>, [Some (DbError (JStr (lit ''DB error'')))]) =
     (Inl (Rejected (DbError (JStr (lit ''DB error'')))), (\<lparr>rows = [], seq = 0\<rparr>, [])) \<and>
   get_todos (faulty d1) (\<lparr>rows = [], seq = 0\<rparr>, [Some Nullish]) =
     (Inl TypeError, (\<lparr>rows = [], seq = 0\<rparr>, []))"
  by code_simp

subsection \<open>C5: what an error response leaves behind\<close>

text \<open>
  C5, as amended. On the table, with a layer that may fail at any call (a failing call
  leaves the table alone), the hardened handlers leave the stored rows as they were
  whenever they answer 400 or 404; list and get never change them; a 500 of delete leaves
  them; a 500 of create, when it is the insert that fails, and a 500 of update, when it is
  the existence check or the update statement that fails, leave them. Nothing is said of
  the 500 that follows a failure of the re-fetch.
\<close>

theorem C5_errors_leave_table:
  "(get_todos (faulty d1) (t, fs) = (out, (t', fs')) \<longrightarrow> t' = t) \<and>
   (get_todo (faulty d1) ident (t, fs) = (out, (t', fs')) \<longrightarrow> t' = t) \<and>
   (delete_todo (faulty d1) ident (t, fs) = (Inr resp, (t', fs')) \<and>
    (http_status resp = 400 \<or> http_status resp = 404 \<or> http_status resp = 500) \<longrightarrow> t' = t) \<and>
   (post_todos (faulty d1) request (t, fs) = (Inr resp, (t', fs')) \<and>
    (http_status resp = 400 \<or> http_status resp = 404 \<or>
     http_status resp = 500 \<and> (\<exists>e fs0. fs = Some e # fs0)) \<longrightarrow> t' = t) \<and>
   (put_todo (faulty d1) ident request (t, fs) = (Inr resp, (t', fs')) \<and>
    (http_status resp = 400 \<or> http_status resp = 404 \<or>
     http_status resp = 500 \<and> (\<exists>e fs0. fs = Some e # fs0 \<or> fs = None # Some e # fs0))
      \<longrightarrow> t' = t)"
proof -
  have d: "delete_todo (faulty d1) ident (t, fs) = (Inr resp, (t', fs')) \<and>
    (http_status resp = 400 \<or> http_status resp = 404 \<or> http_status resp = 500) \<longrightarrow> t' = t"
    using delete_todo_same [of ident t fs resp t' fs'] by auto
  show ?thesis
    using get_todos_same [of t fs out t' fs'] get_todo_same [of ident t fs out t' fs'] d
      post_todos_same [of request t fs resp t' fs']
      put_todo_same [of ident request t fs resp t' fs']
    by blast
qed

text \<open>
  The theorem for an update of an id that no row has (404) and for a create whose insert
  fails (500).
\<close>

theorem C5_errors_leave_table_witness:
  "fst (snd (put_todo (faulty d1) (lit ''5'')
      (Some (BodyObject (JStr (lit ''Test'')) JUndefined JUndefined))
      (\<lparr>rows = [\<lparr>todo_id = 1, title = JStr (lit ''a''), description = JNull,
                  status = JStr (lit ''incomplete'')\<rparr>], seq = 1\<rparr>, []))) =
     \<lparr>rows = [\<lparr>todo_id = 1, title = JStr (lit ''a''), description = JNull,
                status = JStr (lit ''incomplete'')\<rparr>], seq = 1\<rparr> \<and>
   fst (snd (post_todos (faulty d1) (Some (BodyObject (JStr (lit ''Test'')) JUndefined JUndefined))
      (\<lparr>rows = [], seq = 0\<rparr>, [Some (DbError (JStr (lit ''Insert failed'')))]))) =
     \<lparr>rows = [], seq = 0\<rparr>"
proof -
  let ?t1 = "\<lparr>rows = [\<lparr>todo_id = 1, title = JStr (lit ''a''), description = JNull,
                  status = JStr (lit ''incomplete'')\<rparr>], seq = 1\<rparr>"
  let ?req = "Some (BodyObject (JStr (lit ''Test'')) JUndefined JUndefined)"
  let ?put = "put_todo (faulty d1) (lit ''5'') ?req (?t1, [])"
  let ?post = "post_todos (faulty d1) ?req (\<lparr>rows = [], seq = 0\<rparr>, [Some (DbError (JStr (lit ''Insert failed'')))])"
  have "fst ?put = Inr (json (ErrorBody (JStr (lit ''Not found''))) 404)" by code_simp
  then obtain t' fs' where a: "?put = (Inr (json (ErrorBody (JStr (lit ''Not found''))) 404), (t', fs'))"
    by (cases ?put) auto
  have "t' = ?t1"
    using C5_errors_leave_table [where ident = "lit ''5''" and request = ?req and t = ?t1
        and fs = "[]" and resp = "json (ErrorBody (JStr (lit ''Not found''))) 404" and t' = t'
        and fs' = fs'] a
    by (simp add: json_def)
  then have 1: "fst (snd ?put) = ?t1" using a by simp
  have "fst ?post = Inr (json (ErrorBody (JStr (lit ''Insert failed''))) 500)" by code_simp
  then obtain u' gs' where b: "?post = (Inr (json (ErrorBody (JStr (lit ''Insert failed''))) 500), (u', gs'))"
    by (cases ?post) auto
  have "u' = \<lparr>rows = [], seq = 0\<rparr>"
    using C5_errors_leave_table [where request = ?req and t = "\<lparr>rows = [], seq = 0\<rparr>"
        and fs = "[Some (DbError (JStr (lit ''Insert failed'')))]"
        and resp = "json (ErrorBody (JStr (lit ''Insert failed''))) 500" and t' = u'
        and fs' = gs'] b
    by (simp add: json_def)
  then have 2: "fst (snd ?post) = \<lparr>rows = [], seq = 0\<rparr>" using b by simp
  show ?thesis using 1 2 by simp
qed

text \<open>
  C5, as stated, fails when the re-fetch after the insert fails: the hardened create
  handler answers 500 and the row is in the table. The tests of the repository stub
  exactly this (\<open>insertTodo\<close> resolves, \<open>getLatestTodo\<close> rejects) and expect the 500.
\<close>

theorem C5_counterexample:
  "post_todos (faulty d1) (Some (BodyObject (JStr (lit ''Test Todo'')) JUndefined JUndefined))
     (\<lparr>rows = [], seq = 0\<rparr>, [None, Some (DbError (JStr (lit ''Get failed'')))]) =
   (Inr (json (ErrorBody (JStr (lit ''Get failed''))) 500),
    (\<lparr>rows = [\<lparr>todo_id = 1, title = JStr (lit ''Test Todo''), description = JNull,
                status = JStr (lit ''incomplete'')\<rparr>], seq = 1\<rparr>, []))"
  by code_simp

subsection \<open>C6: the status default\<close>

text \<open>
  C6, as amended. In the hardened create and update handlers a status that is not one of
  the four values (an absent one too) is replaced by \<open>DEFAULT_STATUS\<close>, which is
  \<open>"incomplete"\<close>: whatever the layer and the database, the request has the very
  outcome and the very effect of the same request sent with the status \<open>"incomplete"\<close>,
  so a bad status is never a reason to reject. On the table, the row that a create appends
  and the rows that an update rewrites have the status \<open>"incomplete"\<close>. In the simple
  handlers a status that is absent or null is replaced by \<open>"incomplete"\<close> in the
  same way.
\<close>

theorem C6_status_default:
  assumes "\<not> isValidStatus S"
  shows "post_todos L (Some (BodyObject T D S)) db =
           post_todos L (Some (BodyObject T D (JStr DEFAULT_STATUS))) db \<and>
         put_todo L ident (Some (BodyObject T D S)) db =
           put_todo L ident (Some (BodyObject T D (JStr DEFAULT_STATUS))) db \<and>
         DEFAULT_STATUS = lit ''incomplete'' \<and> isValidStatus (JStr DEFAULT_STATUS) \<and>
         (create_reaches_db T D \<longrightarrow>
            (\<exists>r. post_todos d1 (Some (BodyObject T D S)) t =
                   (Inr (json (TodoBody (Some r)) 201),
                    \<lparr>rows = rows t @ [r], seq = nat (next_id t)\<rparr>) \<and>
                 status r = JStr (lit ''incomplete''))) \<and>
         (parseInt ident = Finite n \<and> 0 < n \<and> truthy T \<and> sanitizeTitle T \<noteq> [] \<and>
          \<not> isDescriptionTooLong (or_null D) 1000 \<and> r0 \<in> set (rows t) \<and> todo_id r0 = n \<longrightarrow>
            (\<exists>r t'. put_todo d1 ident (Some (BodyObject T D S)) t =
                   (Inr (json (TodoBody (Some r)) 200), t') \<and>
                 status r = JStr (lit ''incomplete'') \<and>
                 (\<forall>x\<in>set (rows t'). todo_id x = n \<longrightarrow> status x = JStr (lit ''incomplete'')))) \<and>
         simple_post_todos L (Some (BodyObject T D JUndefined)) db =
           simple_post_todos L (Some (BodyObject T D (JStr (lit ''incomplete'')))) db \<and>
         simple_put_todo L ident (Some (BodyObject T D JUndefined)) db =
           simple_put_todo L ident (Some (BodyObject T D (JStr (lit ''incomplete'')))) db \<and>
         simple_post_todos L (Some (BodyObject T D JNull)) db =
           simple_post_todos L (Some (BodyObject T D (JStr (lit ''incomplete'')))) db \<and>
         simple_put_todo L ident (Some (BodyObject T D JNull)) db =
           simple_put_todo L ident (Some (BodyObject T D (JStr (lit ''incomplete'')))) db"
proof -
  have ss: "stored_status S = JStr (lit ''incomplete'')"
    using assms by (simp add: stored_status_def DEFAULT_STATUS_def)
  have p: "post_todos L (Some (BodyObject T D S)) db =
           post_todos L (Some (BodyObject T D (JStr DEFAULT_STATUS))) db"
    using assms isValidStatus_default by (simp add: post_todos_def Let_def)
  have u: "put_todo L ident (Some (BodyObject T D S)) db =
           put_todo L ident (Some (BodyObject T D (JStr DEFAULT_STATUS))) db"
    using assms isValidStatus_default by (simp add: put_todo_def Let_def)
  have sp: "simple_post_todos L (Some (BodyObject T D JUndefined)) db =
           simple_post_todos L (Some (BodyObject T D (JStr (lit ''incomplete'')))) db"
    by (simp add: simple_post_todos_def Let_def split: option.splits prod.splits sum.splits)
  have su: "simple_put_todo L ident (Some (BodyObject T D JUndefined)) db =
           simple_put_todo L ident (Some (BodyObject T D (JStr (lit ''incomplete'')))) db"
    by (simp add: simple_put_todo_def Let_def split: option.splits prod.splits sum.splits)
  have np: "simple_post_todos L (Some (BodyObject T D JNull)) db =
           simple_post_todos L (Some (BodyObject T D (JStr (lit ''incomplete'')))) db"
    by (simp add: simple_post_todos_def Let_def split: option.splits prod.splits sum.splits)
  have nu: "simple_put_todo L ident (Some (BodyObject T D JNull)) db =
           simple_put_todo L ident (Some (BodyObject T D (JStr (lit ''incomplete'')))) db"
    by (simp add: simple_put_todo_def Let_def split: option.splits prod.splits sum.splits)
  have dp: "\<exists>r. post_todos d1 (Some (BodyObject T D S)) t =
                   (Inr (json (TodoBody (Some r)) 201),
                    \<lparr>rows = rows t @ [r], seq = nat (next_id t)\<rparr>) \<and>
                 status r = JStr (lit ''incomplete'')"
    if "create_reaches_db T D"
    using post_todos_d1 [OF that, of S t] ss by simp
  have du: "\<exists>r t'. put_todo d1 ident (Some (BodyObject T D S)) t =
                   (Inr (json (TodoBody (Some r)) 200), t') \<and>
                 status r = JStr (lit ''incomplete'') \<and>
                 (\<forall>x\<in>set (rows t'). todo_id x = n \<longrightarrow> status x = JStr (lit ''incomplete''))"
    if h: "parseInt ident = Finite n \<and> 0 < n \<and> truthy T \<and> sanitizeTitle T \<noteq> [] \<and>
          \<not> isDescriptionTooLong (or_null D) 1000 \<and> r0 \<in> set (rows t) \<and> todo_id r0 = n"
  proof -
    define upd :: "row \<Rightarrow> row" where "upd = (\<lambda>r. if todo_id r = n
           then r\<lparr>title := JStr (sanitizeTitle T), description := or_null D,
                  status := stored_status S\<rparr> else r)"
    define t' where "t' = t\<lparr>rows := map upd (rows t)\<rparr>"
    from h have h1: "parseInt ident = Finite n" and h2: "0 < n" and h3: "truthy T"
      and h4: "sanitizeTitle T \<noteq> []" and h5: "\<not> isDescriptionTooLong (or_null D) 1000"
      and h6: "r0 \<in> set (rows t)" and h7: "todo_id r0 = n" by simp_all
    from put_todo_d1 [OF h1 h2 h3 h4 h6 h7 h5, of S]
    obtain r where r: "put_todo d1 ident (Some (BodyObject T D S)) t =
        (Inr (json (TodoBody (Some r)) 200), t')" and rs: "status r = stored_status S"
      unfolding t'_def upd_def by blast
    have "\<forall>x\<in>set (rows t'). todo_id x = n \<longrightarrow> status x = JStr (lit ''incomplete'')"
    proof
      fix x assume "x \<in> set (rows t')"
      then obtain y where "x = upd y" by (auto simp: t'_def)
      then show "todo_id x = n \<longrightarrow> status x = JStr (lit ''incomplete'')"
        using ss by (simp add: upd_def)
    qed
    then show ?thesis using r rs ss by auto
  qed
  show ?thesis
    using p u sp su np nu dp du isValidStatus_default by (simp add: DEFAULT_STATUS_def)
qed

text \<open>
  The theorem at the status \<open>"done"\<close>: the row that is stored has the status
  \<open>"incomplete"\<close>.
\<close>

theorem C6_status_default_witness:
  "post_todos d1 (Some (BodyObject (JStr (lit ''t'')) JNull (JStr (lit ''done'')))) \<lparr>rows = [], seq = 0\<rparr> =
     (Inr (json (TodoBody (Some \<lparr>todo_id = 1, title = JStr (lit ''t''), description = JNull,
                                  status = JStr (lit ''incomplete'')\<rparr>)) 201),
      \<lparr>rows = [\<lparr>todo_id = 1, title = JStr (lit ''t''), description = JNull,
                 status = JStr (lit ''incomplete'')\<rparr>], seq = 1\<rparr>)"
proof -
  have a: "\<not> isValidStatus (JStr (lit ''done''))" by code_simp
  have b: "post_todos d1 (Some (BodyObject (JStr (lit ''t'')) JNull (JStr DEFAULT_STATUS)))
      \<lparr>rows = [], seq = 0\<rparr> =
     (Inr (json (TodoBody (Some \<lparr>todo_id = 1, title = JStr (lit ''t''), description = JNull,
                                  status = JStr (lit ''incomplete'')\<rparr>)) 201),
      \<lparr>rows = [\<lparr>todo_id = 1, title = JStr (lit ''t''), description = JNull,
                 status = JStr (lit ''incomplete'')\<rparr>], seq = 1\<rparr>)"
    by code_simp
  show ?thesis
    using C6_status_default [OF a, where L = d1 and T = "JStr (lit ''t'')" and D = JNull
        and db = "\<lparr>rows = [], seq = 0\<rparr>"] b
    by simp
qed

text \<open>
  C6, as stated, fails on the simple create handler: \<open>body.status ?? "incomplete"\<close>
  keeps any status that is present, so \<open>"done"\<close> is stored.
\<close>

theorem C6_counterexample:
  "simple_post_todos d1 (Some (BodyObject (JStr (lit ''t'')) JNull (JStr (lit ''done''))))
     \<lparr>rows = [], seq = 0\<rparr> =
   (Inr (json (TodoBody (Some \<lparr>todo_id = 1, title = JStr (lit ''t''), description = JNull,
                                status = JStr (lit ''done'')\<rparr>)) 201),
    \<lparr>rows = [\<lparr>todo_id = 1, title = JStr (lit ''t''), description = JNull,
               status = JStr (lit ''done'')\<rparr>], seq = 1\<rparr>)"
  by code_simp

subsection \<open>C7: titles of white space\<close>

text \<open>
  C7, as amended. \<open>sanitizeTitle\<close> returns the empty string for every string made of
  white space only. When such a string is not empty, the hardened create handler answers
  400 with \<open>"Title cannot be empty"\<close>, and so does the hardened update handler for a
  valid id, without touching the database; an absent title gets the other message,
  \<open>"Title required"\<close>.
\<close>

theorem C7_blank_title:
  assumes "\<forall>c\<in>set s. is_ws c"
  shows "sanitizeTitle (JStr s) = [] \<and>
    (s \<noteq> [] \<longrightarrow>
       post_todos L (Some (BodyObject (JStr s) D S)) db =
         (Inr (json (ErrorBody (JStr (lit ''Title cannot be empty''))) 400), db) \<and>
       (isValid (validateTodoId ident) \<longrightarrow>
          put_todo L ident (Some (BodyObject (JStr s) D S)) db =
            (Inr (json (ErrorBody (JStr (lit ''Title cannot be empty''))) 400), db))) \<and>
    post_todos L (Some (BodyObject JUndefined D S)) db =
      (Inr (json (ErrorBody (JStr (lit ''Title required''))) 400), db) \<and>
    lit ''Title required'' \<noteq> lit ''Title cannot be empty''"
proof -
  have e: "sanitizeTitle (JStr s) = []" using assms by (rule sanitizeTitle_ws_only)
  have p: "post_todos L (Some (BodyObject (JStr s) D S)) db =
         (Inr (json (ErrorBody (JStr (lit ''Title cannot be empty''))) 400), db)" if "s \<noteq> []"
    using that e by (simp add: post_todos_def del: sanitizeTitle.simps)
  have u: "put_todo L ident (Some (BodyObject (JStr s) D S)) db =
            (Inr (json (ErrorBody (JStr (lit ''Title cannot be empty''))) 400), db)"
    if "s \<noteq> []" "isValid (validateTodoId ident)"
    using that e by (simp add: put_todo_def del: sanitizeTitle.simps)
  have a: "post_todos L (Some (BodyObject JUndefined D S)) db =
      (Inr (json (ErrorBody (JStr (lit ''Title required''))) 400), db)"
    by (simp add: post_todos_def)
  show ?thesis using e p u a lit_distinct(1) by blast
qed

text \<open>
  The theorem at the title of three spaces.
\<close>

theorem C7_blank_title_witness:
  "sanitizeTitle (JStr (lit ''   '')) = [] \<and>
   post_todos d1 (Some (BodyObject (JStr (lit ''   '')) JUndefined JUndefined)) \<lparr>rows = [], seq = 0\<rparr> =
     (Inr (json (ErrorBody (JStr (lit ''Title cannot be empty''))) 400), \<lparr>rows = [], seq = 0\<rparr>) \<and>
   put_todo d1 (lit ''1'') (Some (BodyObject (JStr (lit ''   '')) JUndefined JUndefined)) \<lparr>rows = [], seq = 0\<rparr> =
     (Inr (json (ErrorBody (JStr (lit ''Title cannot be empty''))) 400), \<lparr>rows = [], seq = 0\<rparr>)"
proof -
  have w: "\<forall>c\<in>set (lit ''   ''). is_ws c" by (simp add: lit_def is_ws_def)
  have n: "lit ''   '' \<noteq> []" by (simp add: lit_def)
  have v: "isValid (validateTodoId (lit ''1''))" by code_simp
  show ?thesis
    using C7_blank_title [OF w, of d1 JUndefined JUndefined "\<lparr>rows = [], seq = 0\<rparr>" "lit ''1''"] n v
    by blast
qed

text \<open>
  C7, as stated, fails on the simple create handler, which never sanitizes: the title of
  three spaces is truthy, and is stored as it is with the answer 201.
\<close>

theorem C7_counterexample:
  "simple_post_todos d1 (Some (BodyObject (JStr (lit ''   '')) JUndefined JUndefined))
     \<lparr>rows = [], seq = 0\<rparr> =
   (Inr (json (TodoBody (Some \<lparr>todo_id = 1, title = JStr (lit ''   ''), description = JNull,
                                status = JStr (lit ''incomplete'')\<rparr>)) 201),
    \<lparr>rows = [\<lparr>todo_id = 1, title = JStr (lit ''   ''), description = JNull,
               status = JStr (lit ''incomplete'')\<rparr>], seq = 1\<rparr>)"
  by code_simp

subsection \<open>C8: descriptions that are too long\<close>

text \<open>
  C8. A request that has passed the checks before the description (a title that is
  present and not empty once sanitized; for an update also a valid id and a todo found by
  the existence check) and whose description is a string of more than 1000 code units is
  answered 400 with the message about the length, whatever the description contains and
  whatever the layer. The blocklist is not consulted: the answer is never the message
  \<open>"Description contains invalid content"\<close>.
\<close>

theorem C8_description_too_long:
  assumes "truthy T" and "sanitizeTitle T \<noteq> []" and "1000 < length d"
  shows "post_todos L (Some (BodyObject T (JStr d) S)) db =
      (Inr (json (ErrorBody (JStr (lit ''Description is too long (max 1000 characters)''))) 400), db) \<and>
    (isValid (validateTodoId ident) \<and>
     todoExists L db (parseInt ident) = (Inr (Some (x # xs)), db1) \<longrightarrow>
       put_todo L ident (Some (BodyObject T (JStr d) S)) db =
         (Inr (json (ErrorBody (JStr (lit ''Description is too long (max 1000 characters)''))) 400),
          db1)) \<and>
    lit ''Description is too long (max 1000 characters)'' \<noteq>
      lit ''Description contains invalid content''"
proof -
  have d: "d \<noteq> []" using assms(3) by auto
  have p: "post_todos L (Some (BodyObject T (JStr d) S)) db =
      (Inr (json (ErrorBody (JStr (lit ''Description is too long (max 1000 characters)''))) 400), db)"
    using assms d by (simp add: post_todos_def)
  have u: "put_todo L ident (Some (BodyObject T (JStr d) S)) db =
         (Inr (json (ErrorBody (JStr (lit ''Description is too long (max 1000 characters)''))) 400),
          db1)"
    if "isValid (validateTodoId ident)"
      "todoExists L db (parseInt ident) = (Inr (Some (x # xs)), db1)"
    using that assms d valid_id_simps [OF that(1)] by (simp add: put_todo_def)
  show ?thesis using p u lit_distinct(2) by blast
qed

text \<open>
  The theorem at a description of 1009 code units that starts with \<open><script>\<close>.
\<close>

theorem C8_description_too_long_witness:
  "post_todos d1
     (Some (BodyObject (JStr (lit ''t'')) (JStr (lit ''<script>'' @ replicate 1001 0x61)) JUndefined))
     \<lparr>rows = [\<lparr>todo_id = 1, title = JStr (lit ''a''), description = JNull,
                status = JStr (lit ''incomplete'')\<rparr>], seq = 1\<rparr> =
     (Inr (json (ErrorBody (JStr (lit ''Description is too long (max 1000 characters)''))) 400),
      \<lparr>rows = [\<lparr>todo_id = 1, title = JStr (lit ''a''), description = JNull,
                status = JStr (lit ''incomplete'')\<rparr>], seq = 1\<rparr>) \<and>
   put_todo d1 (lit ''1'')
     (Some (BodyObject (JStr (lit ''t'')) (JStr (lit ''<script>'' @ replicate 1001 0x61)) JUndefined))
     \<lparr>rows = [\<lparr>todo_id = 1, title = JStr (lit ''a''), description = JNull,
                status = JStr (lit ''incomplete'')\<rparr>], seq = 1\<rparr> =
     (Inr (json (ErrorBody (JStr (lit ''Description is too long (max 1000 characters)''))) 400),
      \<lparr>rows = [\<lparr>todo_id = 1, title = JStr (lit ''a''), description = JNull,
                status = JStr (lit ''incomplete'')\<rparr>], seq = 1\<rparr>)"
proof -
  let ?t = "\<lparr>rows = [\<lparr>todo_id = 1, title = JStr (lit ''a''), description = JNull,
                status = JStr (lit ''incomplete'')\<rparr>], seq = 1\<rparr>"
  have a: "truthy (JStr (lit ''t''))" by (simp add: lit_def)
  have b: "sanitizeTitle (JStr (lit ''t'')) \<noteq> []" by code_simp
  have c: "1000 < length (lit ''<script>'' @ replicate 1001 (0x61 :: jschar))"
    by (simp add: lit_def)
  have p: "parseInt (lit ''1'') = Finite 1" by code_simp
  have v: "isValid (validateTodoId (lit ''1''))" using p by (simp add: validateTodoId_iff)
  have e: "todoExists d1 ?t (parseInt (lit ''1'')) = (Inr (Some [()]), ?t)"
    using p by (simp add: d1_def d1_todoExists_def)
  show ?thesis
    using C8_description_too_long [OF a b c, where L = d1 and S = JUndefined and db = ?t
        and ident = "lit ''1''" and x = "()" and xs = "[]" and ?db1.0 = ?t] v e
    by (simp only: simp_thms)
qed

subsection \<open>C9: the answer of delete\<close>




subsection \<open>C10: update does not consult the blocklist\<close>



end
